theory Spec2Isabelle
  imports Complex_Main "HOL-Library.AList" "HOL-Library.Char_ord" "HOL-Library.List_Lexorder"
begin

section \<open>Strings and maps of the Go runtime\<close>

text \<open>
  A Go \<open>string\<close> is a byte sequence, here a \<open>string\<close> (a list of \<open>char\<close>, one per byte).
  The functions of package \<open>strings\<close> below work on bytes alone and are modelled in full.
\<close>

definition HasPrefix :: "string \<Rightarrow> string \<Rightarrow> bool" where
  "HasPrefix s p = (take (length p) s = p)"

definition HasSuffix :: "string \<Rightarrow> string \<Rightarrow> bool" where
  "HasSuffix s p = (length p \<le> length s \<and> drop (length s - length p) s = p)"

definition TrimSuffix :: "string \<Rightarrow> string \<Rightarrow> string" where
  "TrimSuffix s p = (if HasSuffix s p then take (length s - length p) s else s)"

fun Contains :: "string \<Rightarrow> string \<Rightarrow> bool" where
  "Contains [] sub = (sub = [])"
| "Contains (c # cs) sub = (HasPrefix (c # cs) sub \<or> Contains cs sub)"

text \<open>\<open>strings.Split(s, sep)\<close> and \<open>strings.Cut(s, sep)\<close> for a one-byte separator,
  \<open>strings.Join\<close>; \<open>Cut\<close> yields \<open>(s, "")\<close> when the separator is absent.\<close>

fun Split :: "string \<Rightarrow> char \<Rightarrow> string list" where
  "Split [] sep = [[]]"
| "Split (c # cs) sep =
     (if c = sep then [] # Split cs sep
      else (case Split cs sep of [] \<Rightarrow> [[c]] | w # ws \<Rightarrow> (c # w) # ws))"

definition Cut :: "string \<Rightarrow> char \<Rightarrow> string \<times> string" where
  "Cut s sep = (takeWhile (\<lambda>c. c \<noteq> sep) s, drop 1 (dropWhile (\<lambda>c. c \<noteq> sep) s))"

fun Join :: "string list \<Rightarrow> string \<Rightarrow> string" where
  "Join [] sep = []"
| "Join [x] sep = x"
| "Join (x # y # ys) sep = x @ sep @ Join (y # ys) sep"

text \<open>
  \<open>path.Clean\<close> and \<open>path.Dir\<close>. \<open>Clean\<close> reads the path element by element: empty
  elements and \<open>.\<close> are dropped, \<open>..\<close> removes the element written last, unless there
  is none left to remove: then it is dropped in a rooted path and kept in a relative one.
  \<open>out\<close> holds the elements written so far.
\<close>

fun Clean_loop :: "bool \<Rightarrow> string list \<Rightarrow> string list \<Rightarrow> string list" where
  "Clean_loop rooted out [] = out"
| "Clean_loop rooted out (e # es) =
     (if e = '''' \<or> e = ''.'' then Clean_loop rooted out es
      else if e = ''..''
        then (if out \<noteq> [] \<and> last out \<noteq> ''..'' then Clean_loop rooted (butlast out) es
              else if \<not> rooted then Clean_loop rooted (out @ [''..'']) es
              else Clean_loop rooted out es)
      else Clean_loop rooted (out @ [e]) es)"

definition Clean :: "string \<Rightarrow> string" where
  "Clean path =
     (if path = '''' then ''.''
      else let rooted = (hd path = CHR ''/'');
               out = (if rooted then ''/'' else '''')
                     @ Join (Clean_loop rooted [] (Split path (CHR ''/''))) ''/''
           in if out = '''' then ''.'' else out)"

definition Dir :: "string \<Rightarrow> string" where
  "Dir path = Clean (rev (dropWhile (\<lambda>c. c \<noteq> CHR ''/'') (rev path)))"

text \<open>
  A Go map is an association list with one entry per key; \<open>m[k]\<close> on a
  \<open>map[string]bool\<close> yields \<open>false\<close> for an absent key, \<open>m[k] = v\<close> is
  \<^const>\<open>AList.update\<close> and \<open>len(m)\<close> is the number of entries.
\<close>

definition index_bool :: "(string \<times> bool) list \<Rightarrow> string \<Rightarrow> bool" where
  "index_bool m k = (case map_of m k of None \<Rightarrow> False | Some b \<Rightarrow> b)"

section \<open>The standard library as a parameter\<close>

text \<open>
  The fields of \<open>net/url.URL\<close>. \<open>User\<close> is a pointer in Go, \<open>None\<close> is \<open>nil\<close>.
\<close>

record Userinfo =
  username :: string
  password :: string
  passwordSet :: bool

record URL =
  Scheme :: string
  Opaque :: string
  User :: "Userinfo option"
  Host :: string
  Path :: string
  RawPath :: string
  OmitHost :: bool
  ForceQuery :: bool
  RawQuery :: string
  Fragment :: string
  RawFragment :: string

text \<open>\<open>url.Values\<close>, a \<open>map[string][]string\<close>.\<close>

type_synonym Values = "(string \<times> string list) list"

text \<open>
  A compiled regular expression, as far as the patterns of the scraper go: a sequence of
  items, each a byte class repeated between a least and a greatest number of times
  (\<open>None\<close>: unbounded), greedily or not, or the line anchor \<open>^\<close> of the flag \<open>(?m)\<close>.
  The flag of the pair is \<open>(?i)\<close>.
\<close>

datatype re_class =
    Byte char        \<comment> \<open>a literal byte\<close>
  | NoneOf string    \<comment> \<open>\<open>[^...]\<close>\<close>
  | Space            \<comment> \<open>\<open>\s\<close>\<close>
  | Dot              \<comment> \<open>\<open>.\<close>\<close>
  | AnyByte          \<comment> \<open>\<open>[\s\S]\<close>\<close>

datatype re_item = Rep re_class nat "nat option" bool | BeginLine

type_synonym regex = "bool \<times> re_item list"

definition lit :: "string \<Rightarrow> re_item list" where
  "lit s = map (\<lambda>c. Rep (Byte c) 1 (Some 1) True) s"

text \<open>
  The functions of the Go standard library that the scraper calls and that do more than
  byte manipulation (URL parsing and printing, Unicode case mapping and white space,
  regular expressions, sorting) are taken as a parameter \<open>lib\<close> of every function that
  uses them, so that what is proved for every \<open>lib\<close> holds for the library itself:
  \<^item> \<open>url_Parse\<close> is \<open>url.Parse\<close>, with \<open>None\<close> for a non-nil error;
  \<^item> \<open>url_String\<close> is \<open>(*URL).String\<close>, \<open>url_Query\<close> is \<open>(*URL).Query\<close>,
    \<open>values_Encode\<close> is \<open>Values.Encode\<close>;
  \<^item> \<open>url_ResolveReference base ref\<close> is \<open>base.ResolveReference(ref)\<close>;
  \<^item> \<open>strings_ToLower\<close>, \<open>strings_Fields\<close>, \<open>strings_TrimSpace\<close> are the functions of
    package \<open>strings\<close>;
  \<^item> \<open>regexp_FindAllString re s\<close> is \<open>re.FindAllString(s, -1)\<close> and
    \<open>regexp_ReplaceAllString re s repl\<close> is \<open>re.ReplaceAllString(s, repl)\<close>;
  \<^item> \<open>sort_Slice less xs\<close> is the slice that \<open>sort.Slice\<close> leaves, \<open>less\<close> comparing
    two elements;
  \<^item> \<open>map_range keys\<close> is the order in which a \<open>range\<close> loop visits a map with these
    keys (Go leaves it unspecified).
\<close>

record stdlib =
  url_Parse :: "string \<Rightarrow> URL option"
  url_String :: "URL \<Rightarrow> string"
  url_Query :: "URL \<Rightarrow> Values"
  values_Encode :: "Values \<Rightarrow> string"
  url_ResolveReference :: "URL \<Rightarrow> URL \<Rightarrow> URL"
  strings_ToLower :: "string \<Rightarrow> string"
  strings_Fields :: "string \<Rightarrow> string list"
  strings_TrimSpace :: "string \<Rightarrow> string"
  regexp_FindAllString :: "regex \<Rightarrow> string \<Rightarrow> string list"
  regexp_ReplaceAllString :: "regex \<Rightarrow> string \<Rightarrow> string \<Rightarrow> string"
  sort_Slice :: "(nat \<Rightarrow> nat \<Rightarrow> bool) \<Rightarrow> nat list \<Rightarrow> nat list"
  map_range :: "string list \<Rightarrow> string list"

section \<open>URL normalization and the link deduplicator (scraper/tree.go)\<close>

record URLNormalizer =
  RemoveFragment :: bool
  RemoveQuery :: bool
  RemoveTrailing :: bool
  LowerCase :: bool
  RemoveWWW :: bool
  SortQueryParams :: bool

text \<open>
  The field \<open>normalizeFunc\<close> of the Go struct is never assigned or read and is left out.
  \<open>duplicateCount\<close> is a Go \<open>int\<close>; it grows by one per call, so it stays far from
  \<open>2^63\<close> and is modelled as an unbounded integer.
\<close>

record LinkDeduplicator =
  seenURLs :: "(string \<times> bool) list"
  canonicalMap :: "(string \<times> string) list"
  duplicateCount :: int
  normalizer :: URLNormalizer

definition NewLinkDeduplicator :: "URLNormalizer \<Rightarrow> LinkDeduplicator" where
  "NewLinkDeduplicator config =
     \<lparr>seenURLs = [], canonicalMap = [], duplicateCount = 0, normalizer = config\<rparr>"

text \<open>\<open>Values.Add\<close>: append the value to the list stored under the key.\<close>

definition Values_Add :: "Values \<Rightarrow> string \<Rightarrow> string \<Rightarrow> Values" where
  "Values_Add vs k v =
     AList.update k ((case map_of vs k of None \<Rightarrow> [] | Some xs \<Rightarrow> xs) @ [v]) vs"

text \<open>
  The loop of \<open>NormalizeURL\<close> that rebuilds the query: the keys of \<open>values\<close>, sorted by
  \<open>sort.Strings\<close> (bytewise lexicographic order), each with its values in their order.
\<close>

definition sortedQuery :: "Values \<Rightarrow> Values" where
  "sortedQuery values =
     (let keys = sort (remdups (map fst values))
      in fold (\<lambda>k acc. fold (\<lambda>v acc'. Values_Add acc' k v)
                          (case map_of values k of None \<Rightarrow> [] | Some xs \<Rightarrow> xs) acc)
              keys [])"

definition NormalizeURL :: "stdlib \<Rightarrow> LinkDeduplicator \<Rightarrow> string \<Rightarrow> string option" where
  "NormalizeURL lib ld rawURL =
     (case url_Parse lib rawURL of
        None \<Rightarrow> None
      | Some parsedURL \<Rightarrow>
          let cfg = normalizer ld;
              u1 = (if RemoveFragment cfg then parsedURL\<lparr>Fragment := ''''\<rparr> else parsedURL);
              u2 = (if RemoveQuery cfg then u1\<lparr>RawQuery := ''''\<rparr> else u1);
              u3 = (if SortQueryParams cfg \<and> \<not> RemoveQuery cfg
                    then u2\<lparr>RawQuery := values_Encode lib (sortedQuery (url_Query lib u2))\<rparr>
                    else u2);
              u4 = (if RemoveWWW cfg \<and> HasPrefix (strings_ToLower lib (Host u3)) ''www.''
                    then u3\<lparr>Host := drop 4 (Host u3)\<rparr> else u3);
              u5 = (if RemoveTrailing cfg \<and> Path u4 \<noteq> ''/''
                    then u4\<lparr>Path := TrimSuffix (Path u4) ''/''\<rparr> else u4);
              normalizedURL = url_String lib u5
          in Some (if LowerCase cfg then strings_ToLower lib normalizedURL else normalizedURL))"

definition IsDuplicate :: "stdlib \<Rightarrow> LinkDeduplicator \<Rightarrow> string \<Rightarrow> bool" where
  "IsDuplicate lib ld rawURL =
     (case NormalizeURL lib ld rawURL of
        None \<Rightarrow> True
      | Some normalized \<Rightarrow> index_bool (seenURLs ld) normalized)"

text \<open>\<open>AddURL\<close> returns its result and the deduplicator as the call leaves it.\<close>

definition AddURL :: "stdlib \<Rightarrow> LinkDeduplicator \<Rightarrow> string \<Rightarrow> bool \<times> LinkDeduplicator" where
  "AddURL lib ld rawURL =
     (case NormalizeURL lib ld rawURL of
        None \<Rightarrow> (False, ld\<lparr>duplicateCount := duplicateCount ld + 1\<rparr>)
      | Some normalized \<Rightarrow>
          if index_bool (seenURLs ld) normalized
          then (False, ld\<lparr>duplicateCount := duplicateCount ld + 1\<rparr>)
          else (True, ld\<lparr>seenURLs := AList.update normalized True (seenURLs ld),
                          canonicalMap := AList.update rawURL normalized (canonicalMap ld)\<rparr>))"

definition GetDuplicateCount :: "LinkDeduplicator \<Rightarrow> int" where
  "GetDuplicateCount ld = duplicateCount ld"

definition GetCanonicalURL :: "stdlib \<Rightarrow> LinkDeduplicator \<Rightarrow> string \<Rightarrow> string" where
  "GetCanonicalURL lib ld rawURL =
     (case map_of (canonicalMap ld) rawURL of
        Some canonical \<Rightarrow> canonical
      | None \<Rightarrow> (case NormalizeURL lib ld rawURL of
                   Some normalized \<Rightarrow> normalized
                 | None \<Rightarrow> rawURL))"

definition GetSeenURLsCount :: "LinkDeduplicator \<Rightarrow> int" where
  "GetSeenURLsCount ld = int (length (seenURLs ld))"

definition Reset :: "LinkDeduplicator \<Rightarrow> LinkDeduplicator" where
  "Reset ld = ld\<lparr>seenURLs := [], canonicalMap := [], duplicateCount := 0\<rparr>"

text \<open>
  A sequence of \<open>AddURL\<close> calls on one deduplicator: the results in call order and the
  deduplicator after the last call.
\<close>

fun AddURLs :: "stdlib \<Rightarrow> LinkDeduplicator \<Rightarrow> string list \<Rightarrow> bool list \<times> LinkDeduplicator" where
  "AddURLs lib ld [] = ([], ld)"
| "AddURLs lib ld (u # us) =
     (case AddURL lib ld u of (r, ld') \<Rightarrow>
        (case AddURLs lib ld' us of (rs, ld'') \<Rightarrow> (r # rs, ld'')))"

text \<open>
  \<open>AddURL\<close> takes no lock, and the deduplicator has no mutex. A call works on the
  shared maps in two steps: it reads \<open>seenURLs\<close> (after the normalization, which reads
  the options only), and later it writes, either the counter or the two maps. What the
  call knows between the two steps is the outcome of its read.
\<close>

datatype lookup = Failed | Seen | Fresh string

definition AddURL_check :: "stdlib \<Rightarrow> LinkDeduplicator \<Rightarrow> string \<Rightarrow> lookup" where
  "AddURL_check lib ld rawURL =
     (case NormalizeURL lib ld rawURL of
        None \<Rightarrow> Failed
      | Some normalized \<Rightarrow> if index_bool (seenURLs ld) normalized then Seen else Fresh normalized)"

definition AddURL_finish :: "LinkDeduplicator \<Rightarrow> string \<Rightarrow> lookup \<Rightarrow> bool \<times> LinkDeduplicator" where
  "AddURL_finish ld rawURL l =
     (case l of
        Failed \<Rightarrow> (False, ld\<lparr>duplicateCount := duplicateCount ld + 1\<rparr>)
      | Seen \<Rightarrow> (False, ld\<lparr>duplicateCount := duplicateCount ld + 1\<rparr>)
      | Fresh normalized \<Rightarrow>
          (True, ld\<lparr>seenURLs := AList.update normalized True (seenURLs ld),
                     canonicalMap := AList.update rawURL normalized (canonicalMap ld)\<rparr>))"

text \<open>
  Two calls of \<open>AddURL\<close> on one deduplicator, made by two goroutines. A call has not
  started, or has read, or has returned; a schedule says which of the two calls takes
  its next step. A call that has returned takes no further step.
\<close>

datatype call_state = Start | Checked lookup | Returned bool

definition call_step ::
  "stdlib \<Rightarrow> string \<Rightarrow> LinkDeduplicator \<Rightarrow> call_state \<Rightarrow> LinkDeduplicator \<times> call_state" where
  "call_step lib rawURL ld c =
     (case c of
        Start \<Rightarrow> (ld, Checked (AddURL_check lib ld rawURL))
      | Checked l \<Rightarrow> (case AddURL_finish ld rawURL l of (r, ld') \<Rightarrow> (ld', Returned r))
      | Returned r \<Rightarrow> (ld, Returned r))"



section \<open>Content quality (scraper/tree.go)\<close>

text \<open>
  \<open>float64\<close> values are modelled as real numbers: rounding is not modelled. The scores
  below are sums of at most five products of small constants, and the claims compare
  them with thresholds that they miss by more than \<open>5 / 10000\<close>.
  A \<open>time.Time\<close> is an integer instant.
\<close>

record QualityIssue =
  i_Type :: string
  i_Severity :: string
  i_Description :: string

record ContentQuality =
  q_Score :: real
  q_WordCount :: int
  q_CodeBlockCount :: int
  q_ImageCount :: int
  q_LinkCount :: int
  q_EmptyLineRatio :: real
  q_ContentRatio :: real
  q_HasTitle :: bool
  q_HasHeaders :: bool
  q_IsNavigationPage :: bool
  q_Language :: string
  q_Issues :: "QualityIssue list"
  q_Tags :: "string list"

record NodeMetadata =
  md_WordCount :: int
  md_LastModified :: int
  md_ContentType :: string
  md_HasCodeBlocks :: bool
  md_HasImages :: bool
  md_Quality :: ContentQuality
  md_Tags :: "string list"

record ScrapedContent =
  sc_URL :: string
  sc_Title :: string
  sc_Content :: string
  sc_Metadata :: NodeMetadata

record QualityConfig =
  MinWordCount :: int
  MinCodeBlockCount :: int
  MaxEmptyLineRatio :: real
  RequireTitle :: bool
  RequireContent :: bool
  SkipNavigationPages :: bool
  MinContentRatio :: real
  BlacklistPatterns :: "string list"
  WhitelistPatterns :: "string list"

record QualityWeights =
  w_WordCount :: real
  w_CodeBlocks :: real
  w_Images :: real
  w_Headers :: real
  w_ContentRatio :: real
  w_TitlePresence :: real

record ContentMetrics =
  m_WordCount :: int
  m_CodeBlockCount :: int
  m_ImageCount :: int
  m_LinkCount :: int
  m_HeaderCount :: int
  m_EmptyLineRatio :: real
  m_ContentRatio :: real
  m_HasTitle :: bool
  m_HasHeaders :: bool
  m_TotalLines :: int
  m_EmptyLines :: int

record QualityScorer =
  weights :: QualityWeights

record QualityStats =
  TotalPages :: int
  PassedPages :: int
  FailedPages :: int
  AverageScore :: real
  AverageWordCount :: int

record ContentQualityAnalyzer =
  config :: QualityConfig
  scorer :: QualityScorer
  stats :: QualityStats

definition NewContentQualityAnalyzer :: "QualityConfig \<Rightarrow> ContentQualityAnalyzer" where
  "NewContentQualityAnalyzer cfg =
     \<lparr>config = cfg,
      scorer = \<lparr>weights = \<lparr>w_WordCount = 0.3, w_CodeBlocks = 0.2, w_Images = 0.1,
                             w_Headers = 0.15, w_ContentRatio = 0.15, w_TitlePresence = 0.1\<rparr>\<rparr>,
      stats = \<lparr>TotalPages = 0, PassedPages = 0, FailedPages = 0, AverageScore = 0,
               AverageWordCount = 0\<rparr>\<rparr>"

definition countWords :: "stdlib \<Rightarrow> string \<Rightarrow> int" where
  "countWords lib text = int (length (strings_Fields lib text))"

text \<open>The pattern \<open>```[\s\S]*?```\<close>.\<close>

definition codeBlockPattern :: regex where
  "codeBlockPattern = (False, lit ''```'' @ [Rep AnyByte 0 None False] @ lit ''```'')"

text \<open>The pattern \<open>`[^`]+`\<close>.\<close>

definition inlineCodePattern :: regex where
  "inlineCodePattern = (False, lit ''`'' @ [Rep (NoneOf ''`'') 1 None True] @ lit ''`'')"

definition countCodeBlocks :: "stdlib \<Rightarrow> string \<Rightarrow> int" where
  "countCodeBlocks lib text =
     (let matches = regexp_FindAllString lib codeBlockPattern text;
          textWithoutBlocks = regexp_ReplaceAllString lib codeBlockPattern text '''';
          inlineMatches = regexp_FindAllString lib inlineCodePattern textWithoutBlocks
      in int (length matches) + int (length inlineMatches) div 3)"

text \<open>The pattern \<open>(?m)^#{1,6}\s+.+\<close>.\<close>

definition headerPattern :: regex where
  "headerPattern =
     (False, [BeginLine, Rep (Byte (CHR ''#'')) 1 (Some 6) True, Rep Space 1 None True,
              Rep Dot 1 None True])"

definition countHeaders :: "stdlib \<Rightarrow> string \<Rightarrow> int" where
  "countHeaders lib text = int (length (regexp_FindAllString lib headerPattern text))"

text \<open>The patterns \<open>(?i)copyright\<close>, \<open>(?i)all rights reserved\<close> and so on.\<close>

definition boilerplatePatterns :: "regex list" where
  "boilerplatePatterns =
     map (\<lambda>s. (True, lit s))
       [''copyright'', ''all rights reserved'', ''privacy policy'', ''terms of service'',
        ''cookie policy'', ''newsletter'', ''subscribe'', ''follow us'', ''social media'',
        ''navigation'', ''menu'', ''footer'', ''header'']"

definition estimateContentRatio :: "stdlib \<Rightarrow> string \<Rightarrow> real" where
  "estimateContentRatio lib text =
     (if length text = 0 then 0
      else let totalLength = int (length text);
               boilerplateLength =
                 (\<Sum>pattern \<leftarrow> boilerplatePatterns.
                    \<Sum>match \<leftarrow> regexp_FindAllString lib pattern text. int (length match));
               contentLength = (if totalLength - boilerplateLength < 0 then 0
                                else totalLength - boilerplateLength)
           in real_of_int contentLength / real_of_int totalLength)"

definition extractMetrics :: "stdlib \<Rightarrow> ScrapedContent \<Rightarrow> ContentMetrics" where
  "extractMetrics lib content =
     (let text = sc_Content content;
          lines = Split text (CHR 0x0A);
          totalLines = int (length lines);
          emptyLines = int (length (filter (\<lambda>line. strings_TrimSpace lib line = '''') lines));
          headerCount = countHeaders lib text
      in \<lparr>m_WordCount = countWords lib text,
          m_CodeBlockCount = countCodeBlocks lib text,
          m_ImageCount = 0,
          m_LinkCount = 0,
          m_HeaderCount = headerCount,
          m_EmptyLineRatio = (if totalLines > 0 then real_of_int emptyLines / real_of_int totalLines
                              else 0),
          m_ContentRatio = estimateContentRatio lib text,
          m_HasTitle = (sc_Title content \<noteq> '''' \<and> sc_Title content \<noteq> ''Untitled''),
          m_HasHeaders = (headerCount > 0),
          m_TotalLines = totalLines,
          m_EmptyLines = emptyLines\<rparr>)"

definition wordScore :: "ContentMetrics \<Rightarrow> real" where
  "wordScore metrics =
     (if m_WordCount metrics \<ge> 500 then 1
      else if m_WordCount metrics \<ge> 100 then real_of_int (m_WordCount metrics) / 500
      else 0)"

definition codeScore :: "ContentMetrics \<Rightarrow> real" where
  "codeScore metrics =
     (if m_CodeBlockCount metrics \<ge> 3 then 1
      else if m_CodeBlockCount metrics > 0 then real_of_int (m_CodeBlockCount metrics) / 3
      else 0)"

definition headerScore :: "ContentMetrics \<Rightarrow> real" where
  "headerScore metrics =
     (if m_HeaderCount metrics \<ge> 3 then 1
      else if m_HeaderCount metrics > 0 then real_of_int (m_HeaderCount metrics) / 3
      else 0)"

definition contentRatioScore :: "ContentMetrics \<Rightarrow> real" where
  "contentRatioScore metrics = (if m_ContentRatio metrics > 1 then 1 else m_ContentRatio metrics)"

definition titleScore :: "ContentMetrics \<Rightarrow> real" where
  "titleScore metrics = (if m_HasTitle metrics then 1 else 0)"

text \<open>
  \<open>CalculateScore\<close> adds the five weighted sub-scores in this order, starting from 0; the
  local variables \<open>wordScore\<close>, \<open>codeScore\<close>, \<open>headerScore\<close>, \<open>contentRatioScore\<close> and
  \<open>titleScore\<close> of the Go function are the definitions above.
\<close>

definition CalculateScore :: "QualityScorer \<Rightarrow> ContentMetrics \<Rightarrow> real" where
  "CalculateScore qs metrics =
     0 + wordScore metrics * w_WordCount (weights qs)
       + codeScore metrics * w_CodeBlocks (weights qs)
       + headerScore metrics * w_Headers (weights qs)
       + contentRatioScore metrics * w_ContentRatio (weights qs)
       + titleScore metrics * w_TitlePresence (weights qs)"

definition DetectLanguage :: "stdlib \<Rightarrow> string \<Rightarrow> string" where
  "DetectLanguage lib content =
     (let englishWords = [''the'', ''and'', ''or'', ''but'', ''in'', ''on'', ''at'', ''to'', ''for'',
                          ''of'', ''with'', ''by''];
          words = strings_Fields lib (strings_ToLower lib content);
          englishCount = (\<Sum>englishWord \<leftarrow> englishWords. int (count_list words englishWord))
      in if englishCount > int (length words) div 20 then ''en'' else ''unknown'')"

definition navIndicators :: "string list" where
  "navIndicators = [''table of contents'', ''navigation'', ''site map'', ''index'', ''directory'',
                    ''menu'', ''links'']"

text \<open>The pattern \<open>\[([^\]]+)\]\([^)]+\)\<close>.\<close>

definition linkPattern :: regex where
  "linkPattern =
     (False, lit ''['' @ [Rep (NoneOf '']'') 1 None True] @ lit ''](''
             @ [Rep (NoneOf '')'') 1 None True] @ lit '')'')"

definition IsNavigationPage :: "stdlib \<Rightarrow> ScrapedContent \<Rightarrow> bool" where
  "IsNavigationPage lib content =
     (let text = strings_ToLower lib (sc_Content content);
          title = strings_ToLower lib (sc_Title content);
          inText = int (length (filter (\<lambda>indicator. Contains text indicator) navIndicators));
          inTitle = 2 * int (length (filter (\<lambda>indicator. Contains title indicator) navIndicators));
          linkCount = int (length (regexp_FindAllString lib linkPattern (sc_Content content)));
          wordCount = int (length (strings_Fields lib (sc_Content content)));
          links = (if wordCount > 0 \<and> real_of_int linkCount / real_of_int wordCount > 0.3
                   then 1 else 0)
      in inText + inTitle + links \<ge> 2)"

definition DetectIssues :: "stdlib \<Rightarrow> ContentQualityAnalyzer \<Rightarrow> ScrapedContent \<Rightarrow> QualityIssue list" where
  "DetectIssues lib cqa content =
     (let wordCount = int (length (strings_Fields lib (sc_Content content)));
          issues1 = (if wordCount < MinWordCount (config cqa)
                     then [\<lparr>i_Type = ''word_count'', i_Severity = ''warning'',
                             i_Description = ''Content has fewer words than recommended minimum''\<rparr>]
                     else []);
          issues2 = (if RequireTitle (config cqa)
                        \<and> (sc_Title content = '''' \<or> sc_Title content = ''Untitled'')
                     then [\<lparr>i_Type = ''missing_title'', i_Severity = ''error'',
                             i_Description = ''Page is missing a title''\<rparr>]
                     else []);
          issues3 = (if RequireContent (config cqa)
                        \<and> length (strings_TrimSpace lib (sc_Content content)) = 0
                     then [\<lparr>i_Type = ''empty_content'', i_Severity = ''error'',
                             i_Description = ''Page has no content''\<rparr>]
                     else []);
          text = strings_ToLower lib (sc_Content content);
          foundPatterns = filter (\<lambda>pattern. Contains text (strings_ToLower lib pattern))
                                 (BlacklistPatterns (config cqa));
          issues4 = (if foundPatterns \<noteq> []
                     then [\<lparr>i_Type = ''blacklisted_content'', i_Severity = ''warning'',
                             i_Description = ''Content contains blacklisted pattern''
                               @ (if length foundPatterns > 1
                                  then ''s: '' @ Join foundPatterns '', ''
                                  else '': '' @ hd foundPatterns)\<rparr>]
                     else [])
      in issues1 @ issues2 @ issues3 @ issues4)"

definition ShouldSkip :: "ContentQualityAnalyzer \<Rightarrow> ContentQuality \<Rightarrow> bool" where
  "ShouldSkip cqa quality =
     (if q_Score quality < 0.3 then True
      else if SkipNavigationPages (config cqa) \<and> q_IsNavigationPage quality then True
      else list_ex (\<lambda>issue. i_Severity issue = ''error'') (q_Issues quality))"

definition generateTags :: "ContentMetrics \<Rightarrow> string list" where
  "generateTags metrics =
     (if m_CodeBlockCount metrics > 0 then [''technical''] else [])
     @ (if m_WordCount metrics > 1000 then [''long-form'']
        else if m_WordCount metrics < 200 then [''short-form''] else [])
     @ (if m_HasHeaders metrics then [''structured''] else [])
     @ (if m_WordCount metrics \<ge> 500 \<and> m_CodeBlockCount metrics \<ge> 2 then [''comprehensive'']
        else [])
     @ (if m_ContentRatio metrics < 0.3 then [''low-content''] else [])"

text \<open>
  \<open>updateStats\<close>; the integer division is on non-negative numbers, where Go's
  truncation and \<open>div\<close> agree.
\<close>

definition updateStats :: "ContentQualityAnalyzer \<Rightarrow> ContentQuality \<Rightarrow> ContentQualityAnalyzer" where
  "updateStats cqa quality =
     (let s = stats cqa;
          total = TotalPages s + 1;
          totalScore = AverageScore s * real_of_int (total - 1);
          totalWords = AverageWordCount s * (total - 1)
      in cqa\<lparr>stats :=
            \<lparr>TotalPages = total,
             PassedPages = (if q_Score quality \<ge> 0.4 then PassedPages s + 1 else PassedPages s),
             FailedPages = (if q_Score quality \<ge> 0.4 then FailedPages s else FailedPages s + 1),
             AverageScore = (totalScore + q_Score quality) / real_of_int total,
             AverageWordCount = (totalWords + q_WordCount quality) div total\<rparr>\<rparr>)"

text \<open>\<open>AnalyzeContent\<close> returns the quality and the analyzer with its statistics updated.\<close>

definition AnalyzeContent ::
  "stdlib \<Rightarrow> ContentQualityAnalyzer \<Rightarrow> ScrapedContent \<Rightarrow> ContentQuality \<times> ContentQualityAnalyzer" where
  "AnalyzeContent lib cqa content =
     (let metrics = extractMetrics lib content;
          quality =
            \<lparr>q_Score = CalculateScore (scorer cqa) metrics,
             q_WordCount = m_WordCount metrics,
             q_CodeBlockCount = m_CodeBlockCount metrics,
             q_ImageCount = m_ImageCount metrics,
             q_LinkCount = m_LinkCount metrics,
             q_EmptyLineRatio = m_EmptyLineRatio metrics,
             q_ContentRatio = m_ContentRatio metrics,
             q_HasTitle = m_HasTitle metrics,
             q_HasHeaders = m_HasHeaders metrics,
             q_IsNavigationPage = IsNavigationPage lib content,
             q_Language = DetectLanguage lib (sc_Content content),
             q_Issues = DetectIssues lib cqa content,
             q_Tags = generateTags metrics\<rparr>
      in (quality, updateStats cqa quality))"

section \<open>Link admission (scraper/scraper.go)\<close>

definition IsAbs :: "URL \<Rightarrow> bool" where
  "IsAbs u = (Scheme u \<noteq> '''')"




section \<open>The document tree (scraper/tree.go)\<close>

text \<open>
  Nodes are allocated by the builder and reached through pointers. The tree carries its
  nodes in allocation order (\<open>nodes\<close>); a \<open>*DocumentNode\<close> is the position of the node
  in that list, \<open>None\<close> is \<open>nil\<close>. The field \<open>BuildTime\<close> is left out.
\<close>

record DocumentNode =
  n_URL :: string
  n_Path :: string
  n_Title :: string
  n_Content :: string
  n_Depth :: int
  n_Level :: int
  n_Parent :: "nat option"
  n_Children :: "nat list"
  n_Metadata :: NodeMetadata
  n_Index :: int

record DocumentTree =
  nodes :: "DocumentNode list"
  Root :: "nat option"
  NodeMap :: "(string \<times> nat) list"
  MaxDepth :: int
  TotalNodes :: int

record TreeConfig =
  tc_BuildingStrategy :: string
  tc_UseURLHierarchy :: bool
  tc_UseBreadcrumbs :: bool
  tc_UseNavigation :: bool
  tc_FallbackToRoot :: bool
  tc_SortChildren :: bool
  tc_SortBy :: string
  tc_SortOrder :: string
  tc_AutoIndex :: bool
  tc_PreserveOriginalOrder :: bool

record TreeBuilder =
  tb_config :: TreeConfig

text \<open>
  A call that does not return a value: it dereferences \<open>nil\<close> (or a pointer to no node),
  or its recursion is deeper than the fuel that the model gives it.
\<close>

datatype failure = NilDereference | OutOfFuel

definition extractPath :: "stdlib \<Rightarrow> string \<Rightarrow> string" where
  "extractPath lib rawURL = (case url_Parse lib rawURL of None \<Rightarrow> rawURL | Some parsedURL \<Rightarrow> Path parsedURL)"

text \<open>The loop of \<open>findParentByURLHierarchy\<close> over the entries of \<open>NodeMap\<close>.\<close>

fun findParent_loop ::
  "stdlib \<Rightarrow> (string \<times> nat) list \<Rightarrow> URL \<Rightarrow> string \<Rightarrow> string \<Rightarrow> string list \<Rightarrow> nat option" where
  "findParent_loop lib nodeMap parsedURL urlPath parentPath [] = None"
| "findParent_loop lib nodeMap parsedURL urlPath parentPath (existingURL # rest) =
     (case map_of nodeMap existingURL of
        None \<Rightarrow> findParent_loop lib nodeMap parsedURL urlPath parentPath rest
      | Some existingNode \<Rightarrow>
          (case url_Parse lib existingURL of
             None \<Rightarrow> findParent_loop lib nodeMap parsedURL urlPath parentPath rest
           | Some existingParsed \<Rightarrow>
               if Host existingParsed = Host parsedURL
                  \<and> (Path existingParsed = parentPath
                     \<or> (parentPath \<noteq> ''/'' \<and> HasPrefix urlPath (Path existingParsed @ ''/'')))
               then Some existingNode
               else findParent_loop lib nodeMap parsedURL urlPath parentPath rest))"

definition findParentByURLHierarchy :: "stdlib \<Rightarrow> DocumentNode \<Rightarrow> DocumentTree \<Rightarrow> nat option" where
  "findParentByURLHierarchy lib node tree =
     (case url_Parse lib (n_URL node) of
        None \<Rightarrow> None
      | Some parsedURL \<Rightarrow>
          let urlPath = Path parsedURL
          in if urlPath = ''/'' \<or> urlPath = '''' then Root tree
             else let parentPath = (if Dir urlPath = ''.'' then ''/'' else Dir urlPath)
                  in findParent_loop lib (NodeMap tree) parsedURL urlPath parentPath
                       (map_range lib (map fst (NodeMap tree))))"

definition DetermineParent :: "stdlib \<Rightarrow> TreeBuilder \<Rightarrow> DocumentNode \<Rightarrow> DocumentTree \<Rightarrow> nat option" where
  "DetermineParent lib tb node tree =
     (if tc_UseURLHierarchy (tb_config tb) then findParentByURLHierarchy lib node tree else None)"

text \<open>
  \<open>AddNode\<close> returns its error (\<open>None\<close> is \<open>nil\<close>) and the tree as the call leaves it. The
  new node is allocated at the end of \<open>nodes\<close>.
\<close>

definition AddNode ::
  "stdlib \<Rightarrow> TreeBuilder \<Rightarrow> DocumentTree \<Rightarrow> string \<Rightarrow> ScrapedContent \<Rightarrow> string option \<times> DocumentTree" where
  "AddNode lib tb tree url content =
     (if map_of (NodeMap tree) url \<noteq> None
      then (Some (''node with URL '' @ url @ '' already exists''), tree)
      else let node = \<lparr>n_URL = url, n_Path = extractPath lib url, n_Title = sc_Title content,
                       n_Content = sc_Content content, n_Depth = 0, n_Level = 0, n_Parent = None,
                       n_Children = [], n_Metadata = sc_Metadata content, n_Index = 0\<rparr>;
               addr = length (nodes tree);
               parent = (case DetermineParent lib tb node tree of
                           Some p \<Rightarrow> Some p
                         | None \<Rightarrow> if tc_FallbackToRoot (tb_config tb) \<and> Root tree \<noteq> None
                                   then Root tree else None);
               ns = nodes tree @ [node\<lparr>n_Parent := parent\<rparr>];
               ns' = (case parent of
                        None \<Rightarrow> ns
                      | Some p \<Rightarrow> ns[p := (ns ! p)\<lparr>n_Children := n_Children (ns ! p) @ [addr]\<rparr>])
           in (None, tree\<lparr>nodes := ns', NodeMap := AList.update url addr (NodeMap tree)\<rparr>))"

text \<open>
  The recursive traversals. Each takes the nodes and returns them as the call leaves
  them; \<open>fuel\<close> bounds the depth of the recursion.
\<close>

fun calculateNodeDepthAndLevel ::
      "nat \<Rightarrow> DocumentNode list \<Rightarrow> nat \<Rightarrow> int \<Rightarrow> int \<Rightarrow> failure + DocumentNode list"
  and calculateChildren ::
      "nat \<Rightarrow> DocumentNode list \<Rightarrow> nat list \<Rightarrow> int \<Rightarrow> int \<Rightarrow> failure + DocumentNode list" where
  "calculateNodeDepthAndLevel 0 ns node depth level = Inl OutOfFuel"
| "calculateNodeDepthAndLevel (Suc fuel) ns node depth level =
     (if node \<ge> length ns then Inl NilDereference
      else calculateChildren fuel (ns[node := (ns ! node)\<lparr>n_Depth := depth, n_Level := level\<rparr>])
             (n_Children (ns ! node)) (depth + 1) (level + 1))"
| "calculateChildren fuel ns [] depth level = Inr ns"
| "calculateChildren fuel ns (child # rest) depth level =
     (case calculateNodeDepthAndLevel fuel ns child depth level of
        Inl e \<Rightarrow> Inl e
      | Inr ns' \<Rightarrow> calculateChildren fuel ns' rest depth level)"

definition CalculateDepthAndLevel :: "nat \<Rightarrow> DocumentTree \<Rightarrow> failure + DocumentTree" where
  "CalculateDepthAndLevel fuel tree =
     (case Root tree of
        None \<Rightarrow> Inr tree
      | Some r \<Rightarrow>
          (case calculateNodeDepthAndLevel fuel (nodes tree) r 0 0 of
             Inl e \<Rightarrow> Inl e
           | Inr ns \<Rightarrow> Inr (tree\<lparr>nodes := ns\<rparr>)))"

definition sortLess :: "DocumentNode list \<Rightarrow> string \<Rightarrow> (nat \<Rightarrow> nat \<Rightarrow> bool) option" where
  "sortLess ns sortBy =
     (if sortBy = ''index'' then Some (\<lambda>i j. n_Index (ns ! i) < n_Index (ns ! j))
      else if sortBy = ''title'' then Some (\<lambda>i j. n_Title (ns ! i) < n_Title (ns ! j))
      else if sortBy = ''url'' then Some (\<lambda>i j. n_URL (ns ! i) < n_URL (ns ! j))
      else if sortBy = ''date''
        then Some (\<lambda>i j. md_LastModified (n_Metadata (ns ! i)) < md_LastModified (n_Metadata (ns ! j)))
      else None)"

fun SortChildren ::
      "nat \<Rightarrow> stdlib \<Rightarrow> DocumentNode list \<Rightarrow> nat \<Rightarrow> string \<Rightarrow> failure + DocumentNode list"
  and SortChildren_loop ::
      "nat \<Rightarrow> stdlib \<Rightarrow> DocumentNode list \<Rightarrow> nat list \<Rightarrow> string \<Rightarrow> failure + DocumentNode list" where
  "SortChildren 0 lib ns node sortBy = Inl OutOfFuel"
| "SortChildren (Suc fuel) lib ns node sortBy =
     (if node \<ge> length ns then Inl NilDereference
      else if length (n_Children (ns ! node)) \<le> 1 then Inr ns
      else let sorted = (case sortLess ns sortBy of
                           None \<Rightarrow> n_Children (ns ! node)
                         | Some cmp \<Rightarrow> sort_Slice lib cmp (n_Children (ns ! node)))
           in SortChildren_loop fuel lib (ns[node := (ns ! node)\<lparr>n_Children := sorted\<rparr>]) sorted sortBy)"
| "SortChildren_loop fuel lib ns [] sortBy = Inr ns"
| "SortChildren_loop fuel lib ns (child # rest) sortBy =
     (case SortChildren fuel lib ns child sortBy of
        Inl e \<Rightarrow> Inl e
      | Inr ns' \<Rightarrow> SortChildren_loop fuel lib ns' rest sortBy)"

definition sortTreeChildren ::
  "nat \<Rightarrow> stdlib \<Rightarrow> TreeBuilder \<Rightarrow> DocumentNode list \<Rightarrow> nat option \<Rightarrow> failure + DocumentNode list" where
  "sortTreeChildren fuel lib tb ns rootNode =
     (case rootNode of
        None \<Rightarrow> Inl NilDereference
      | Some r \<Rightarrow> SortChildren fuel lib ns r (tc_SortBy (tb_config tb)))"

fun autoIndexNodes ::
      "nat \<Rightarrow> DocumentNode list \<Rightarrow> nat \<Rightarrow> int \<Rightarrow> failure + (int \<times> DocumentNode list)"
  and autoIndexNodes_loop ::
      "nat \<Rightarrow> DocumentNode list \<Rightarrow> nat list \<Rightarrow> int \<Rightarrow> failure + (int \<times> DocumentNode list)" where
  "autoIndexNodes 0 ns node startIndex = Inl OutOfFuel"
| "autoIndexNodes (Suc fuel) ns node startIndex =
     (if node \<ge> length ns then Inl NilDereference
      else autoIndexNodes_loop fuel (ns[node := (ns ! node)\<lparr>n_Index := startIndex\<rparr>])
             (n_Children (ns ! node)) (startIndex + 1))"
| "autoIndexNodes_loop fuel ns [] currentIndex = Inr (currentIndex, ns)"
| "autoIndexNodes_loop fuel ns (child # rest) currentIndex =
     (case autoIndexNodes fuel ns child currentIndex of
        Inl e \<Rightarrow> Inl e
      | Inr (currentIndex', ns') \<Rightarrow> autoIndexNodes_loop fuel ns' rest currentIndex')"

fun calculateMaxDepth_node :: "nat \<Rightarrow> DocumentNode list \<Rightarrow> nat \<Rightarrow> failure + int"
  and calculateMaxDepth_loop :: "nat \<Rightarrow> DocumentNode list \<Rightarrow> nat list \<Rightarrow> int \<Rightarrow> failure + int" where
  "calculateMaxDepth_node 0 ns node = Inl OutOfFuel"
| "calculateMaxDepth_node (Suc fuel) ns node =
     (if node \<ge> length ns then Inl NilDereference
      else (case calculateMaxDepth_loop fuel ns (n_Children (ns ! node)) 0 of
              Inl e \<Rightarrow> Inl e
            | Inr maxChildDepth \<Rightarrow> Inr (n_Depth (ns ! node) + maxChildDepth)))"
| "calculateMaxDepth_loop fuel ns [] maxChildDepth = Inr maxChildDepth"
| "calculateMaxDepth_loop fuel ns (child # rest) maxChildDepth =
     (case calculateMaxDepth_node fuel ns child of
        Inl e \<Rightarrow> Inl e
      | Inr childDepth \<Rightarrow>
          calculateMaxDepth_loop fuel ns rest
            (if childDepth > maxChildDepth then childDepth else maxChildDepth))"

definition calculateMaxDepth :: "nat \<Rightarrow> DocumentNode list \<Rightarrow> nat option \<Rightarrow> failure + int" where
  "calculateMaxDepth fuel ns node =
     (case node of None \<Rightarrow> Inr 0 | Some n \<Rightarrow> calculateMaxDepth_node fuel ns n)"

text \<open>The two loops of \<open>BuildTree\<close>: the root node, then every other URL.\<close>

definition BuildTree_root :: "stdlib \<Rightarrow> string list \<Rightarrow> (string \<times> ScrapedContent) list \<Rightarrow> DocumentTree" where
  "BuildTree_root lib urls contents =
     (let tree = \<lparr>nodes = [], Root = None, NodeMap = [], MaxDepth = 0, TotalNodes = 0\<rparr>
      in case urls of
           [] \<Rightarrow> tree
         | rootURL # _ \<Rightarrow>
             (case map_of contents rootURL of
                None \<Rightarrow> tree
              | Some content \<Rightarrow>
                  tree\<lparr>nodes := [\<lparr>n_URL = rootURL, n_Path = extractPath lib rootURL,
                                   n_Title = sc_Title content, n_Content = sc_Content content,
                                   n_Depth = 0, n_Level = 0, n_Parent = None, n_Children = [],
                                   n_Metadata = sc_Metadata content, n_Index = 0\<rparr>],
                       Root := Some 0,
                       NodeMap := [(rootURL, 0)]\<rparr>))"

fun BuildTree_add ::
  "stdlib \<Rightarrow> TreeBuilder \<Rightarrow> (string \<times> ScrapedContent) list \<Rightarrow> DocumentTree \<Rightarrow> nat \<Rightarrow> string list
     \<Rightarrow> DocumentTree" where
  "BuildTree_add lib tb contents tree i [] = tree"
| "BuildTree_add lib tb contents tree i (url # rest) =
     (if i = 0 \<and> Root tree \<noteq> None then BuildTree_add lib tb contents tree (Suc i) rest
      else (case map_of contents url of
              None \<Rightarrow> BuildTree_add lib tb contents tree (Suc i) rest
            | Some content \<Rightarrow>
                BuildTree_add lib tb contents (snd (AddNode lib tb tree url content)) (Suc i) rest))"

definition BuildTree ::
  "stdlib \<Rightarrow> TreeBuilder \<Rightarrow> nat \<Rightarrow> string list \<Rightarrow> (string \<times> ScrapedContent) list
     \<Rightarrow> failure + DocumentTree" where
  "BuildTree lib tb fuel urls contents =
     (let tree1 = BuildTree_add lib tb contents (BuildTree_root lib urls contents) 0 urls
      in case CalculateDepthAndLevel fuel tree1 of
           Inl e \<Rightarrow> Inl e
         | Inr tree2 \<Rightarrow>
             (case (if tc_SortChildren (tb_config tb)
                    then sortTreeChildren fuel lib tb (nodes tree2) (Root tree2)
                    else Inr (nodes tree2)) of
                Inl e \<Rightarrow> Inl e
              | Inr ns3 \<Rightarrow>
                  (case (if tc_AutoIndex (tb_config tb)
                         then (case Root tree2 of
                                 None \<Rightarrow> Inl NilDereference
                               | Some r \<Rightarrow> map_sum id snd (autoIndexNodes fuel ns3 r 0))
                         else Inr ns3) of
                     Inl e \<Rightarrow> Inl e
                   | Inr ns4 \<Rightarrow>
                       (case calculateMaxDepth fuel ns4 (Root tree2) of
                          Inl e \<Rightarrow> Inl e
                        | Inr d \<Rightarrow>
                            Inr (tree2\<lparr>nodes := ns4,
                                        TotalNodes := int (length (NodeMap tree2)),
                                        MaxDepth := d\<rparr>)))))"

text \<open>\<open>FindNode\<close> and the parent of a node.\<close>

definition FindNode :: "DocumentTree \<Rightarrow> string \<Rightarrow> nat option" where
  "FindNode dt url = map_of (NodeMap dt) url"

section \<open>A model of the standard library\<close>

text \<open>
  The scenarios below are run with \<open>go\<close>, a model of the library functions on ASCII
  text. It follows the library's algorithms where no escaping is involved:
  \<^item> \<open>go_Parse\<close> follows \<open>url.Parse\<close> on strings over letters, digits and
    \<open>- . _ ~ / : ? # = &\<close>, where no byte is percent-encoded and there is no user
    information; every other string is outside the model and is given \<open>None\<close>;
  \<^item> \<open>go_ToLower\<close>, \<open>go_Fields\<close> and \<open>go_TrimSpace\<close> map and split ASCII letters and
    ASCII white space only;
  \<^item> \<open>go_FindAllString\<close> and \<open>go_ReplaceAllString\<close> find the leftmost match, preferring
    as a backtracking search does, for patterns that match no empty string, and replace
    by a text without \<open>$\<close>;
  \<^item> \<open>go_sort_Slice\<close> is the stable result and \<open>go\<close> ranges over a map in insertion
    order: one of the results the library may give.
\<close>

definition letters :: string where
  "letters = ''abcdefghijklmnopqrstuvwxyzABCDEFGHIJKLMNOPQRSTUVWXYZ''"

definition digits :: string where
  "digits = ''0123456789''"

definition safe :: "char \<Rightarrow> bool" where
  "safe c = (c \<in> set (letters @ digits @ ''-._~'' @ ''/:?#=&''))"

definition lower_byte :: "char \<Rightarrow> char" where
  "lower_byte c =
     (case map_of (zip ''ABCDEFGHIJKLMNOPQRSTUVWXYZ'' ''abcdefghijklmnopqrstuvwxyz'') c of
        None \<Rightarrow> c | Some d \<Rightarrow> d)"

definition go_ToLower :: "string \<Rightarrow> string" where
  "go_ToLower s = map lower_byte s"

definition isSpace :: "char \<Rightarrow> bool" where
  "isSpace c = (c \<in> set [CHR 0x09, CHR 0x0A, CHR 0x0B, CHR 0x0C, CHR 0x0D, CHR '' ''])"

fun Fields_loop :: "string \<Rightarrow> string \<Rightarrow> string list" where
  "Fields_loop word [] = (if word = [] then [] else [word])"
| "Fields_loop word (c # cs) =
     (if isSpace c then (if word = [] then Fields_loop [] cs else word # Fields_loop [] cs)
      else Fields_loop (word @ [c]) cs)"

definition go_Fields :: "string \<Rightarrow> string list" where
  "go_Fields s = Fields_loop [] s"

definition go_TrimSpace :: "string \<Rightarrow> string" where
  "go_TrimSpace s = rev (dropWhile isSpace (rev (dropWhile isSpace s)))"

subsection \<open>net/url\<close>

text \<open>\<open>getScheme\<close>; \<open>acc\<close> is \<open>rawURL[:i]\<close>, \<open>None\<close> is the error \<open>missing protocol scheme\<close>.\<close>

fun getScheme_loop :: "string \<Rightarrow> string \<Rightarrow> string \<Rightarrow> (string \<times> string) option" where
  "getScheme_loop rawURL acc [] = Some ('''', rawURL)"
| "getScheme_loop rawURL acc (c # cs) =
     (if c \<in> set letters then getScheme_loop rawURL (acc @ [c]) cs
      else if c \<in> set digits \<or> c \<in> set ''+-.''
        then (if acc = [] then Some ('''', rawURL) else getScheme_loop rawURL (acc @ [c]) cs)
      else if c = CHR '':'' then (if acc = [] then None else Some (acc, cs))
      else Some ('''', rawURL))"

definition getScheme :: "string \<Rightarrow> (string \<times> string) option" where
  "getScheme rawURL = getScheme_loop rawURL [] rawURL"

definition empty_URL :: URL where
  "empty_URL = \<lparr>Scheme = '''', Opaque = '''', User = None, Host = '''', Path = '''', RawPath = '''',
                 OmitHost = False, ForceQuery = False, RawQuery = '''', Fragment = '''',
                 RawFragment = ''''\<rparr>"

definition validOptionalPort :: "string \<Rightarrow> bool" where
  "validOptionalPort port =
     (case port of [] \<Rightarrow> True | c # cs \<Rightarrow> c = CHR '':'' \<and> (\<forall>b \<in> set cs. b \<in> set digits))"

text \<open>\<open>parseHost\<close> for a host without brackets: what follows the last colon is a port.\<close>

definition parseHost :: "string \<Rightarrow> string option" where
  "parseHost host =
     (if CHR '':'' \<in> set host
         \<and> \<not> validOptionalPort (CHR '':'' # rev (takeWhile (\<lambda>c. c \<noteq> CHR '':'') (rev host)))
      then None else Some host)"

text \<open>\<open>parse(rawURL, false)\<close>: the URL without its fragment.\<close>

definition parse :: "string \<Rightarrow> URL option" where
  "parse rawURL =
     (if rawURL = ''*'' then Some (empty_URL\<lparr>Path := ''*''\<rparr>)
      else case getScheme rawURL of
        None \<Rightarrow> None
      | Some (scheme, rest0) \<Rightarrow>
          let force = (HasSuffix rest0 ''?'' \<and> count_list rest0 (CHR ''?'') = 1);
              rest = (if force then butlast rest0 else fst (Cut rest0 (CHR ''?'')));
              url = empty_URL\<lparr>Scheme := go_ToLower scheme, ForceQuery := force,
                      RawQuery := (if force then '''' else snd (Cut rest0 (CHR ''?'')))\<rparr>
          in if \<not> HasPrefix rest ''/'' \<and> scheme \<noteq> '''' then Some (url\<lparr>Opaque := rest\<rparr>)
             else if \<not> HasPrefix rest ''/'' \<and> CHR '':'' \<in> set (fst (Cut rest (CHR ''/''))) then None
             else if (scheme \<noteq> '''' \<or> \<not> HasPrefix rest ''///'') \<and> HasPrefix rest ''//''
               then (case parseHost (takeWhile (\<lambda>c. c \<noteq> CHR ''/'') (drop 2 rest)) of
                       None \<Rightarrow> None
                     | Some host \<Rightarrow>
                         Some (url\<lparr>Host := host,
                                   Path := dropWhile (\<lambda>c. c \<noteq> CHR ''/'') (drop 2 rest)\<rparr>))
             else if scheme \<noteq> '''' \<and> HasPrefix rest ''/''
               then Some (url\<lparr>OmitHost := True, Path := rest\<rparr>)
             else Some (url\<lparr>Path := rest\<rparr>))"

definition go_Parse :: "string \<Rightarrow> URL option" where
  "go_Parse rawURL =
     (if \<not> (\<forall>c \<in> set rawURL. safe c) then None
      else case parse (fst (Cut rawURL (CHR ''#''))) of
        None \<Rightarrow> None
      | Some url \<Rightarrow>
          let frag = snd (Cut rawURL (CHR ''#''))
          in Some (url\<lparr>Fragment := frag,
                       RawFragment := (if CHR ''#'' \<in> set frag then frag else '''')\<rparr>))"

text \<open>\<open>escape\<close>: percent-encoding of the bytes that a component must escape.\<close>

definition hex_byte :: "char \<Rightarrow> string" where
  "hex_byte c = [CHR ''%'', ''0123456789ABCDEF'' ! (of_char c div 16),
                 ''0123456789ABCDEF'' ! (of_char c mod 16)]"

definition escape :: "(char \<Rightarrow> bool) \<Rightarrow> string \<Rightarrow> string" where
  "escape shouldEscape s = concat (map (\<lambda>c. if shouldEscape c then hex_byte c else [c]) s)"

definition go_String :: "URL \<Rightarrow> string" where
  "go_String u =
     (let scheme = (if Scheme u \<noteq> '''' then Scheme u @ '':'' else '''');
          path = escape (\<lambda>c. c \<in> set ''?#'') (Path u);
          authority =
            (if Scheme u \<noteq> '''' \<or> Host u \<noteq> ''''
             then (if OmitHost u \<and> Host u = '''' then ''''
                   else (if Host u \<noteq> '''' \<or> Path u \<noteq> '''' then ''//'' else '''') @ Host u)
             else '''');
          slash = (if path \<noteq> '''' \<and> hd path \<noteq> CHR ''/'' \<and> Host u \<noteq> '''' then ''/'' else '''');
          dot = (if scheme @ authority @ slash = '''' \<and> CHR '':'' \<in> set (fst (Cut path (CHR ''/'')))
                 then ''./'' else '''');
          body = (if Opaque u \<noteq> '''' then Opaque u else authority @ slash @ dot @ path)
      in scheme @ body
         @ (if ForceQuery u \<or> RawQuery u \<noteq> '''' then ''?'' @ RawQuery u else '''')
         @ (if Fragment u \<noteq> '''' then ''#'' @ escape (\<lambda>c. c = CHR ''#'') (Fragment u) else ''''))"

text \<open>\<open>ParseQuery\<close> on the \<open>&\<close>-separated pairs, and \<open>Values.Encode\<close>.\<close>

fun parseQuery :: "Values \<Rightarrow> string list \<Rightarrow> Values" where
  "parseQuery m [] = m"
| "parseQuery m (key # rest) =
     (if key = '''' then parseQuery m rest
      else parseQuery (Values_Add m (fst (Cut key (CHR ''=''))) (snd (Cut key (CHR ''='')))) rest)"

definition go_Query :: "URL \<Rightarrow> Values" where
  "go_Query u = parseQuery [] (Split (RawQuery u) (CHR ''&''))"

definition QueryEscape :: "string \<Rightarrow> string" where
  "QueryEscape s =
     concat (map (\<lambda>c. if c = CHR '' '' then ''+''
                       else if c \<in> set (letters @ digits @ ''-_.~'') then [c]
                       else hex_byte c) s)"

definition go_Encode :: "Values \<Rightarrow> string" where
  "go_Encode v =
     Join (concat (map (\<lambda>k. map (\<lambda>x. QueryEscape k @ ''='' @ QueryEscape x)
                              (case map_of v k of None \<Rightarrow> [] | Some xs \<Rightarrow> xs))
                       (sort (remdups (map fst v))))) ''&''"

text \<open>\<open>resolvePath\<close> and \<open>ResolveReference\<close>; \<open>dst\<close> is the builder of the Go loop.\<close>

fun resolvePath_loop :: "string \<Rightarrow> bool \<Rightarrow> string list \<Rightarrow> string" where
  "resolvePath_loop dst first [] = dst"
| "resolvePath_loop dst first (elem # rest) =
     (if elem = ''.'' then resolvePath_loop dst False rest
      else if elem = ''..''
        then (if CHR ''/'' \<notin> set (drop 1 dst) then resolvePath_loop ''/'' True rest
              else resolvePath_loop
                     (''/'' @ rev (drop 1 (dropWhile (\<lambda>c. c \<noteq> CHR ''/'') (rev (drop 1 dst)))))
                     first rest)
      else resolvePath_loop (dst @ (if first then '''' else ''/'') @ elem) False rest)"

definition resolvePath :: "string \<Rightarrow> string \<Rightarrow> string" where
  "resolvePath base ref =
     (let full = (if ref = '''' then base
                  else if hd ref \<noteq> CHR ''/''
                    then rev (dropWhile (\<lambda>c. c \<noteq> CHR ''/'') (rev base)) @ ref
                  else ref)
      in if full = '''' then ''''
         else let elems = Split full (CHR ''/'');
                  dst = resolvePath_loop ''/'' True elems;
                  r = (if last elems = ''.'' \<or> last elems = ''..'' then dst @ ''/'' else dst)
              in if length r > 1 \<and> r ! 1 = CHR ''/'' then drop 1 r else r)"

definition go_ResolveReference :: "URL \<Rightarrow> URL \<Rightarrow> URL" where
  "go_ResolveReference u ref =
     (let url = (if Scheme ref = '''' then ref\<lparr>Scheme := Scheme u\<rparr> else ref)
      in if Scheme ref \<noteq> '''' \<or> Host ref \<noteq> '''' \<or> User ref \<noteq> None
         then url\<lparr>Path := resolvePath (Path ref) '''', RawPath := ''''\<rparr>
         else if Opaque ref \<noteq> '''' then url\<lparr>User := None, Host := '''', Path := ''''\<rparr>
         else let url1 = (if Path ref = '''' \<and> \<not> ForceQuery ref \<and> RawQuery ref = ''''
                          then (if Fragment ref = ''''
                                then url\<lparr>RawQuery := RawQuery u, Fragment := Fragment u,
                                         RawFragment := RawFragment u\<rparr>
                                else url\<lparr>RawQuery := RawQuery u\<rparr>)
                          else url)
              in if Path ref = '''' \<and> Opaque u \<noteq> ''''
                 then url1\<lparr>Opaque := Opaque u, User := None, Host := '''', Path := ''''\<rparr>
                 else url1\<lparr>Host := Host u, User := User u,
                           Path := resolvePath (Path u) (Path ref), RawPath := ''''\<rparr>)"

subsection \<open>regexp\<close>

fun class_match :: "bool \<Rightarrow> re_class \<Rightarrow> char \<Rightarrow> bool" where
  "class_match ci (Byte b) c = (if ci then lower_byte c = lower_byte b else c = b)"
| "class_match ci (NoneOf bs) c = (c \<notin> set bs)"
| "class_match ci Space c = (c \<in> set [CHR 0x09, CHR 0x0A, CHR 0x0C, CHR 0x0D, CHR '' ''])"
| "class_match ci Dot c = (c \<noteq> CHR 0x0A)"
| "class_match ci AnyByte c = True"

text \<open>
  \<open>re_match ci items prev s\<close>: the text that the items match at the start of \<open>s\<close>, the
  byte before being \<open>prev\<close>. A greedy repetition tries one more byte first, a lazy one
  tries the rest of the pattern first.
\<close>

fun re_match :: "bool \<Rightarrow> re_item list \<Rightarrow> char option \<Rightarrow> string \<Rightarrow> string option" where
  "re_match ci [] prev s = Some []"
| "re_match ci (BeginLine # r) prev s =
     (if prev = None \<or> prev = Some (CHR 0x0A) then re_match ci r prev s else None)"
| "re_match ci (Rep cl lo hi greedy # r) prev [] =
     (if lo = 0 then re_match ci r prev [] else None)"
| "re_match ci (Rep cl lo hi True # r) prev (c # cs) =
     (case (if class_match ci cl c \<and> hi \<noteq> Some 0
            then map_option ((#) c)
                   (re_match ci (Rep cl (lo - 1) (map_option (\<lambda>n. n - 1) hi) True # r) (Some c) cs)
            else None) of
        Some m \<Rightarrow> Some m
      | None \<Rightarrow> (if lo = 0 then re_match ci r prev (c # cs) else None))"
| "re_match ci (Rep cl lo hi False # r) prev (c # cs) =
     (case (if lo = 0 then re_match ci r prev (c # cs) else None) of
        Some m \<Rightarrow> Some m
      | None \<Rightarrow>
          (if class_match ci cl c \<and> hi \<noteq> Some 0
           then map_option ((#) c)
                  (re_match ci (Rep cl (lo - 1) (map_option (\<lambda>n. n - 1) hi) False # r) (Some c) cs)
           else None))"

text \<open>\<open>skip\<close> is the number of bytes of the last match that are still to be passed.\<close>

fun find_all :: "regex \<Rightarrow> char option \<Rightarrow> nat \<Rightarrow> string \<Rightarrow> string list" where
  "find_all re prev skip [] = []"
| "find_all re prev skip (c # cs) =
     (if skip > 0 then find_all re (Some c) (skip - 1) cs
      else (case re_match (fst re) (snd re) prev (c # cs) of
              None \<Rightarrow> find_all re (Some c) 0 cs
            | Some m \<Rightarrow> m # find_all re (Some c) (length m - 1) cs))"

definition go_FindAllString :: "regex \<Rightarrow> string \<Rightarrow> string list" where
  "go_FindAllString re s = find_all re None 0 s"

fun replace_all :: "regex \<Rightarrow> string \<Rightarrow> char option \<Rightarrow> nat \<Rightarrow> string \<Rightarrow> string" where
  "replace_all re repl prev skip [] = []"
| "replace_all re repl prev skip (c # cs) =
     (if skip > 0 then replace_all re repl (Some c) (skip - 1) cs
      else (case re_match (fst re) (snd re) prev (c # cs) of
              None \<Rightarrow> c # replace_all re repl (Some c) 0 cs
            | Some m \<Rightarrow> repl @ replace_all re repl (Some c) (length m - 1) cs))"

definition go_ReplaceAllString :: "regex \<Rightarrow> string \<Rightarrow> string \<Rightarrow> string" where
  "go_ReplaceAllString re s repl = replace_all re repl None 0 s"

subsection \<open>sort\<close>

fun insert_by :: "(nat \<Rightarrow> nat \<Rightarrow> bool) \<Rightarrow> nat \<Rightarrow> nat list \<Rightarrow> nat list" where
  "insert_by cmp x [] = [x]"
| "insert_by cmp x (y # ys) = (if cmp y x then y # insert_by cmp x ys else x # y # ys)"

definition go_sort_Slice :: "(nat \<Rightarrow> nat \<Rightarrow> bool) \<Rightarrow> nat list \<Rightarrow> nat list" where
  "go_sort_Slice cmp xs = foldr (insert_by cmp) xs []"

definition go :: stdlib where
  "go = \<lparr>url_Parse = go_Parse, url_String = go_String, url_Query = go_Query,
          values_Encode = go_Encode, url_ResolveReference = go_ResolveReference,
          strings_ToLower = go_ToLower, strings_Fields = go_Fields,
          strings_TrimSpace = go_TrimSpace, regexp_FindAllString = go_FindAllString,
          regexp_ReplaceAllString = go_ReplaceAllString, sort_Slice = go_sort_Slice,
          map_range = (\<lambda>keys. keys)\<rparr>"

section \<open>Scenarios and the conditions of the specification\<close>

text \<open>The deduplicator of \<open>TestLinkDeduplicator_AddURL\<close> and the URLs it adds.\<close>

definition test_normalizer :: URLNormalizer where
  "test_normalizer = \<lparr>RemoveFragment = True, RemoveQuery = False, RemoveTrailing = False,
                       LowerCase = True, RemoveWWW = False, SortQueryParams = False\<rparr>"

definition test_urls :: "string list" where
  "test_urls = [''https://example.com/page#section'', ''https://EXAMPLE.com/page'',
                ''https://example.com/other'']"

text \<open>The page and the configuration of the quality scenario; the other fields are zero.\<close>

definition zero_Quality :: ContentQuality where
  "zero_Quality = \<lparr>q_Score = 0, q_WordCount = 0, q_CodeBlockCount = 0, q_ImageCount = 0,
                    q_LinkCount = 0, q_EmptyLineRatio = 0, q_ContentRatio = 0, q_HasTitle = False,
                    q_HasHeaders = False, q_IsNavigationPage = False, q_Language = '''',
                    q_Issues = [], q_Tags = []\<rparr>"

definition zero_Metadata :: NodeMetadata where
  "zero_Metadata = \<lparr>md_WordCount = 0, md_LastModified = 0, md_ContentType = '''',
                     md_HasCodeBlocks = False, md_HasImages = False, md_Quality = zero_Quality,
                     md_Tags = []\<rparr>"

definition page :: "string \<Rightarrow> string \<Rightarrow> string \<Rightarrow> ScrapedContent" where
  "page url title content =
     \<lparr>sc_URL = url, sc_Title = title, sc_Content = content, sc_Metadata = zero_Metadata\<rparr>"

definition error_page :: ScrapedContent where
  "error_page = page '''' '''' ''Error 404''"

definition error_page_config :: QualityConfig where
  "error_page_config =
     \<lparr>MinWordCount = 50, MinCodeBlockCount = 0, MaxEmptyLineRatio = 0, RequireTitle = True,
      RequireContent = False, SkipNavigationPages = False, MinContentRatio = 0,
      BlacklistPatterns = [''404''], WhitelistPatterns = []\<rparr>"

text \<open>Metrics with a given word count and nothing else.\<close>

definition metrics_words :: "int \<Rightarrow> ContentMetrics" where
  "metrics_words w =
     \<lparr>m_WordCount = w, m_CodeBlockCount = 0, m_ImageCount = 0, m_LinkCount = 0,
      m_HeaderCount = 0, m_EmptyLineRatio = 0, m_ContentRatio = 0, m_HasTitle = False,
      m_HasHeaders = False, m_TotalLines = 0, m_EmptyLines = 0\<rparr>"

text \<open>
  A page of 500 words: three headers, three code blocks and the word \<open>menu\<close>, then the
  word \<open>x\<close> 490 times.
\<close>

definition filler :: "nat \<Rightarrow> string" where
  "filler n = concat (replicate n ''x '')"

definition long_content :: string where
  "long_content =
     ''# a'' @ [CHR 0x0A] @ ''# a'' @ [CHR 0x0A] @ ''# a'' @ [CHR 0x0A]
     @ ''```a``` ```a``` ```a``` menu'' @ [CHR 0x0A] @ filler 490"

definition untitled_page :: ScrapedContent where
  "untitled_page = page '''' ''Untitled'' long_content"

definition guide_page :: ScrapedContent where
  "guide_page = page '''' ''Guide'' long_content"

definition menu_page :: ScrapedContent where
  "menu_page = page '''' '''' ''menu''"

text \<open>Texts made of the bytes of \<open>filler\<close>.\<close>

definition filler_text :: "string \<Rightarrow> bool" where
  "filler_text s = (set s \<subseteq> {CHR ''x'', CHR '' ''})"

definition zero_config :: QualityConfig where
  "zero_config =
     \<lparr>MinWordCount = 0, MinCodeBlockCount = 0, MaxEmptyLineRatio = 0, RequireTitle = False,
      RequireContent = False, SkipNavigationPages = False, MinContentRatio = 0,
      BlacklistPatterns = [], WhitelistPatterns = []\<rparr>"










text \<open>The four pages of the tree scenario and the builder that infers parents from URLs.\<close>

definition hierarchy_builder :: "bool \<Rightarrow> TreeBuilder" where
  "hierarchy_builder fallback =
     \<lparr>tb_config = \<lparr>tc_BuildingStrategy = '''', tc_UseURLHierarchy = True, tc_UseBreadcrumbs = False,
                    tc_UseNavigation = False, tc_FallbackToRoot = fallback, tc_SortChildren = False,
                    tc_SortBy = '''', tc_SortOrder = '''', tc_AutoIndex = False,
                    tc_PreserveOriginalOrder = False\<rparr>\<rparr>"

definition guide_urls :: "string list" where
  "guide_urls = [''https://example.com/'', ''https://example.com/docs/'',
                 ''https://example.com/docs/guide/'', ''https://example.com/docs/guide/start'']"

definition contents_of :: "string list \<Rightarrow> (string \<times> ScrapedContent) list" where
  "contents_of urls = map (\<lambda>url. (url, page url ''Title'' ''Content'')) urls"

text \<open>
  URLs of the form \<open>scheme://host path ?query #fragment\<close>, the last two optional, and
  what makes the five parts well-formed: the scheme starts with a letter, the host is
  not empty, the path is empty or starts with \<open>/\<close>, and every part is made of letters,
  digits and the punctuation that the part may hold unescaped.
\<close>

definition simple_url :: "string \<Rightarrow> string \<Rightarrow> string \<Rightarrow> string option \<Rightarrow> string option \<Rightarrow> string" where
  "simple_url sch host path query fragment =
     sch @ ''://'' @ host @ path
     @ (case query of None \<Rightarrow> '''' | Some q \<Rightarrow> ''?'' @ q)
     @ (case fragment of None \<Rightarrow> '''' | Some f \<Rightarrow> ''#'' @ f)"

definition name_char :: "char \<Rightarrow> bool" where
  "name_char c = (c \<in> set letters \<or> c \<in> set digits \<or> c \<in> set ''-._~'')"

definition path_char :: "char \<Rightarrow> bool" where
  "path_char c = (name_char c \<or> c \<in> set ''/:=&'')"

definition query_char :: "char \<Rightarrow> bool" where
  "query_char c = (path_char c \<or> c = CHR ''?'')"

definition simple_parts :: "string \<Rightarrow> string \<Rightarrow> string \<Rightarrow> string option \<Rightarrow> string option \<Rightarrow> bool" where
  "simple_parts sch host path query fragment =
     (sch \<noteq> [] \<and> hd sch \<in> set letters
      \<and> list_all (\<lambda>c. c \<in> set letters \<or> c \<in> set digits \<or> c \<in> set ''-.'') sch
      \<and> host \<noteq> [] \<and> list_all name_char host
      \<and> (path = [] \<or> hd path = CHR ''/'') \<and> list_all path_char path
      \<and> (case query of None \<Rightarrow> True | Some q \<Rightarrow> list_all query_char q)
      \<and> (case fragment of None \<Rightarrow> True | Some f \<Rightarrow> list_all query_char f))"

text \<open>Policies with one transformation each, and with two.\<close>

definition no_normalization :: URLNormalizer where
  "no_normalization = \<lparr>RemoveFragment = False, RemoveQuery = False, RemoveTrailing = False,
                        LowerCase = False, RemoveWWW = False, SortQueryParams = False\<rparr>"

text \<open>
  What the transformations of \<open>NormalizeURL\<close> make of the host, the path, the query and
  the fragment of such a URL, and the case mapping that the policy asks for.
\<close>

definition canonical_host :: "URLNormalizer \<Rightarrow> string \<Rightarrow> string" where
  "canonical_host cfg host =
     (if RemoveWWW cfg \<and> HasPrefix (go_ToLower host) ''www.'' then drop 4 host else host)"

definition canonical_path :: "URLNormalizer \<Rightarrow> string \<Rightarrow> string" where
  "canonical_path cfg path =
     (if RemoveTrailing cfg \<and> path \<noteq> ''/'' then TrimSuffix path ''/'' else path)"

definition canonical_query :: "URLNormalizer \<Rightarrow> string option \<Rightarrow> string option" where
  "canonical_query cfg query =
     (if RemoveQuery cfg then (if query = Some '''' then Some '''' else None) else query)"

definition canonical_fragment :: "URLNormalizer \<Rightarrow> string option \<Rightarrow> string option" where
  "canonical_fragment cfg fragment =
     (if RemoveFragment cfg \<or> fragment = Some '''' then None else fragment)"

definition canonical_case :: "URLNormalizer \<Rightarrow> string \<Rightarrow> string" where
  "canonical_case cfg s = (if LowerCase cfg then go_ToLower s else s)"

section \<open>Properties of the link deduplicator\<close>

lemma update_set_subset: "set (AList.update k v al) \<subseteq> insert (k, v) (set al)"
  by (induction al) auto

lemma update_length_new:
  "k \<notin> fst ` set al \<Longrightarrow> length (AList.update k v al) = Suc (length al)"
  by (induction al) auto

lemma NormalizeURL_cong_normalizer:
  "normalizer ld' = normalizer ld \<Longrightarrow> NormalizeURL lib ld' u = NormalizeURL lib ld u"
  by (simp add: NormalizeURL_def cong: option.case_cong)

lemma AddURL_normalizer: "normalizer (snd (AddURL lib ld u)) = normalizer ld"
  by (simp add: AddURL_def split: option.splits)

lemma AddURLs_Cons_fst [simp]:
  "fst (AddURLs lib ld (u # us)) = fst (AddURL lib ld u) # fst (AddURLs lib (snd (AddURL lib ld u)) us)"
  by (simp split: prod.splits)

lemma AddURLs_Cons_snd [simp]:
  "snd (AddURLs lib ld (u # us)) = snd (AddURLs lib (snd (AddURL lib ld u)) us)"
  by (simp split: prod.splits)

declare AddURLs.simps(2) [simp del]

lemma AddURLs_normalizer: "normalizer (snd (AddURLs lib ld us)) = normalizer ld"
proof (induction us arbitrary: ld)
  case Nil
  show ?case by simp
next
  case (Cons u us)
  show ?case
    unfolding AddURLs_Cons_snd using Cons.IH [of "snd (AddURL lib ld u)"]
    by (simp add: AddURL_normalizer)
qed

lemma AddURLs_length: "length (fst (AddURLs lib ld us)) = length us"
proof (induction us arbitrary: ld)
  case Nil
  show ?case by simp
next
  case (Cons u us)
  show ?case unfolding AddURLs_Cons_fst using Cons.IH by simp
qed

lemma AddURLs_append_fst:
  "fst (AddURLs lib ld (us @ vs)) =
     fst (AddURLs lib ld us) @ fst (AddURLs lib (snd (AddURLs lib ld us)) vs)"
proof (induction us arbitrary: ld)
  case Nil
  show ?case by simp
next
  case (Cons u us)
  show ?case
    unfolding append_Cons AddURLs_Cons_fst AddURLs_Cons_snd using Cons.IH by simp
qed

lemma AddURLs_append_snd:
  "snd (AddURLs lib ld (us @ vs)) = snd (AddURLs lib (snd (AddURLs lib ld us)) vs)"
proof (induction us arbitrary: ld)
  case Nil
  show ?case by simp
next
  case (Cons u us)
  show ?case
    unfolding append_Cons AddURLs_Cons_snd using Cons.IH by simp
qed

lemma AddURLs_nth:
  assumes "i < length us"
  shows "fst (AddURLs lib ld us) ! i = fst (AddURL lib (snd (AddURLs lib ld (take i us))) (us ! i))"
proof -
  let ?pre = "take i us" and ?post = "(us ! i) # drop (Suc i) us"
  have us: "?pre @ ?post = us"
    using assms by (simp add: id_take_nth_drop [symmetric])
  have len: "length (fst (AddURLs lib ld ?pre)) = i"
    using assms by (simp add: AddURLs_length)
  have "fst (AddURLs lib ld us) ! i = fst (AddURLs lib ld (?pre @ ?post)) ! i"
    by (simp only: us)
  also have "\<dots> = fst (AddURLs lib (snd (AddURLs lib ld ?pre)) ?post) ! 0"
    unfolding AddURLs_append_fst using len by (simp add: nth_append)
  also have "\<dots> = fst (AddURL lib (snd (AddURLs lib ld ?pre)) (us ! i))"
    unfolding AddURLs_Cons_fst by simp
  finally show ?thesis .
qed

lemma AddURLs_take_Suc:
  assumes "i < length us"
  shows "snd (AddURLs lib ld (take (Suc i) us))
       = snd (AddURL lib (snd (AddURLs lib ld (take i us))) (us ! i))"
proof -
  have "take (Suc i) us = take i us @ [us ! i]"
    using assms by (simp add: take_Suc_conv_app_nth)
  then show ?thesis
    by (simp add: AddURLs_append_snd AddURLs_Cons_snd)
qed

text \<open>Every value stored in \<open>seenURLs\<close> is \<open>true\<close>, and no key is stored twice.\<close>

definition seen_ok :: "LinkDeduplicator \<Rightarrow> bool" where
  "seen_ok ld = (distinct (map fst (seenURLs ld)) \<and> (\<forall>kv \<in> set (seenURLs ld). snd kv))"

lemma index_bool_update:
  "index_bool (AList.update k True m) c = (c = k \<or> index_bool m c)"
  by (simp add: index_bool_def update_conv')

lemma seen_ok_index:
  assumes "seen_ok ld"
  shows "index_bool (seenURLs ld) c = (c \<in> fst ` set (seenURLs ld))"
proof (cases "map_of (seenURLs ld) c")
  case None
  then have "c \<notin> fst ` set (seenURLs ld)" by (simp add: map_of_eq_None_iff)
  with None show ?thesis by (simp add: index_bool_def)
next
  case (Some b)
  then have "(c, b) \<in> set (seenURLs ld)" by (rule map_of_SomeD)
  moreover from this assms have b by (auto simp: seen_ok_def)
  moreover have "c \<in> fst ` set (seenURLs ld)"
    using \<open>(c, b) \<in> set (seenURLs ld)\<close> by (rule image_eqI [rotated]) simp
  ultimately show ?thesis using Some by (simp add: index_bool_def)
qed

lemma AddURL_seen_ok:
  assumes "seen_ok ld"
  shows "seen_ok (snd (AddURL lib ld u))"
proof (cases "NormalizeURL lib ld u")
  case None
  with assms show ?thesis by (simp add: AddURL_def seen_ok_def)
next
  case (Some c)
  have "\<forall>kv \<in> set (AList.update c True (seenURLs ld)). snd kv"
    using update_set_subset [of c True "seenURLs ld"] assms by (auto simp: seen_ok_def)
  with Some assms show ?thesis
    by (simp add: AddURL_def seen_ok_def distinct_update)
qed

lemma AddURLs_seen_ok: "seen_ok ld \<Longrightarrow> seen_ok (snd (AddURLs lib ld us))"
proof (induction us arbitrary: ld)
  case Nil
  then show ?case by simp
next
  case (Cons u us)
  show ?case
    unfolding AddURLs_Cons_snd by (rule Cons.IH [OF AddURL_seen_ok [OF Cons.prems]])
qed

lemma AddURL_index:
  "index_bool (seenURLs (snd (AddURL lib ld u))) c
     = (index_bool (seenURLs ld) c \<or> NormalizeURL lib ld u = Some c)"
  by (auto simp: AddURL_def index_bool_update split: option.splits)

lemma AddURLs_index:
  "index_bool (seenURLs (snd (AddURLs lib ld us))) c
     = (index_bool (seenURLs ld) c \<or> (\<exists>u \<in> set us. NormalizeURL lib ld u = Some c))"
proof (induction us arbitrary: ld)
  case Nil
  show ?case by simp
next
  case (Cons u us)
  define ld' where "ld' = snd (AddURL lib ld u)"
  have n: "NormalizeURL lib ld' v = NormalizeURL lib ld v" for v
    unfolding ld'_def by (rule NormalizeURL_cong_normalizer) (rule AddURL_normalizer)
  have "index_bool (seenURLs (snd (AddURLs lib ld (u # us)))) c
      = index_bool (seenURLs (snd (AddURLs lib ld' us))) c"
    by (simp only: AddURLs_Cons_snd ld'_def)
  also have "\<dots> = (index_bool (seenURLs ld') c \<or> (\<exists>v \<in> set us. NormalizeURL lib ld' v = Some c))"
    by (rule Cons.IH)
  also have "\<dots> = ((index_bool (seenURLs ld) c \<or> NormalizeURL lib ld u = Some c)
                    \<or> (\<exists>v \<in> set us. NormalizeURL lib ld v = Some c))"
    by (simp only: n) (simp only: ld'_def AddURL_index)
  also have "\<dots> = (index_bool (seenURLs ld) c \<or> (\<exists>v \<in> set (u # us). NormalizeURL lib ld v = Some c))"
    by auto
  finally show ?case .
qed

lemma AddURL_result:
  "fst (AddURL lib ld u) =
     (case NormalizeURL lib ld u of None \<Rightarrow> False | Some c \<Rightarrow> \<not> index_bool (seenURLs ld) c)"
  by (simp add: AddURL_def split: option.splits)

lemma AddURL_counts:
  assumes "seen_ok ld"
  shows "if fst (AddURL lib ld u)
         then GetSeenURLsCount (snd (AddURL lib ld u)) = GetSeenURLsCount ld + 1
            \<and> GetDuplicateCount (snd (AddURL lib ld u)) = GetDuplicateCount ld
         else GetDuplicateCount (snd (AddURL lib ld u)) = GetDuplicateCount ld + 1
            \<and> GetSeenURLsCount (snd (AddURL lib ld u)) = GetSeenURLsCount ld"
proof (cases "NormalizeURL lib ld u")
  case None
  then show ?thesis
    by (simp add: AddURL_def GetSeenURLsCount_def GetDuplicateCount_def)
next
  case (Some c)
  show ?thesis
  proof (cases "index_bool (seenURLs ld) c")
    case True
    with Some show ?thesis
      by (simp add: AddURL_def GetSeenURLsCount_def GetDuplicateCount_def)
  next
    case False
    then have "c \<notin> fst ` set (seenURLs ld)"
      using seen_ok_index [OF assms] by simp
    then have "length (AList.update c True (seenURLs ld)) = Suc (length (seenURLs ld))"
      by (rule update_length_new)
    with Some False show ?thesis
      by (simp add: AddURL_def GetSeenURLsCount_def GetDuplicateCount_def)
  qed
qed

lemma AddURLs_conservation:
  assumes "seen_ok ld"
  shows "GetSeenURLsCount (snd (AddURLs lib ld us)) + GetDuplicateCount (snd (AddURLs lib ld us))
       = GetSeenURLsCount ld + GetDuplicateCount ld + int (length us)"
  using assms
proof (induction us arbitrary: ld)
  case Nil
  show ?case by simp
next
  case (Cons u us)
  let ?ld' = "snd (AddURL lib ld u)"
  have ok: "seen_ok ?ld'" by (rule AddURL_seen_ok [OF Cons.prems])
  have step: "GetSeenURLsCount ?ld' + GetDuplicateCount ?ld'
            = GetSeenURLsCount ld + GetDuplicateCount ld + 1"
    using AddURL_counts [OF Cons.prems, of lib u] by (auto split: if_splits)
  show ?case
    unfolding AddURLs_Cons_snd using Cons.IH [OF ok] step by simp
qed

lemma fresh_seen_ok: "seen_ok (NewLinkDeduplicator cfg)" "seen_ok (Reset ld)"
  by (simp_all add: seen_ok_def NewLinkDeduplicator_def Reset_def)

lemma AddURL_duplicate_counted:
  assumes "\<not> fst (AddURL lib ld u)"
  shows "GetDuplicateCount (snd (AddURL lib ld u)) = GetDuplicateCount ld + 1"
proof (cases "NormalizeURL lib ld u")
  case None
  then show ?thesis by (simp add: AddURL_def GetDuplicateCount_def)
next
  case (Some c)
  with assms have "index_bool (seenURLs ld) c" by (simp add: AddURL_result)
  with Some show ?thesis by (simp add: AddURL_def GetDuplicateCount_def)
qed

lemma ex_take_nth:
  assumes "i \<le> length us"
  shows "(\<exists>u \<in> set (take i us). P u) = (\<exists>j<i. P (us ! j))"
proof -
  have "set (take i us) = (!) us ` {0..<i}"
    using assms by (simp add: nth_image)
  then show ?thesis by auto
qed

text \<open>
  Claim C1. In a sequence of \<open>AddURL\<close> calls on a new deduplicator, a call whose argument
  normalizes to the canonical form \<open>c\<close> returns \<open>true\<close> exactly when no earlier call had
  an argument normalizing to \<open>c\<close>: the first such call returns \<open>true\<close>, every later one
  returns \<open>false\<close>, and a call that returns \<open>false\<close> adds exactly 1 to the duplicate
  counter. This holds whatever the library functions do.
\<close>

theorem C1_AddURL_first_true_then_duplicate:
  assumes "i < length us"
      and "NormalizeURL lib (NewLinkDeduplicator cfg) (us ! i) = Some c"
  shows "(fst (AddURLs lib (NewLinkDeduplicator cfg) us) ! i
            = (\<forall>j<i. NormalizeURL lib (NewLinkDeduplicator cfg) (us ! j) \<noteq> Some c))
       \<and> (\<not> fst (AddURLs lib (NewLinkDeduplicator cfg) us) ! i \<longrightarrow>
            GetDuplicateCount (snd (AddURLs lib (NewLinkDeduplicator cfg) (take (Suc i) us)))
              = GetDuplicateCount (snd (AddURLs lib (NewLinkDeduplicator cfg) (take i us))) + 1)"
proof -
  define ld0 where "ld0 = NewLinkDeduplicator cfg"
  define ldi where "ldi = snd (AddURLs lib ld0 (take i us))"
  have norm: "NormalizeURL lib ldi u = NormalizeURL lib ld0 u" for u
    unfolding ldi_def by (rule NormalizeURL_cong_normalizer) (rule AddURLs_normalizer)
  have res: "fst (AddURLs lib ld0 us) ! i = fst (AddURL lib ldi (us ! i))"
    unfolding ldi_def by (rule AddURLs_nth [OF assms(1)])
  have empty: "\<not> index_bool (seenURLs ld0) c"
    by (simp add: ld0_def NewLinkDeduplicator_def index_bool_def)
  have "index_bool (seenURLs ldi) c = (\<exists>u \<in> set (take i us). NormalizeURL lib ld0 u = Some c)"
    unfolding ldi_def using empty by (simp only: AddURLs_index) simp
  also have "\<dots> = (\<exists>j<i. NormalizeURL lib ld0 (us ! j) = Some c)"
    using assms(1) by (intro ex_take_nth) simp
  finally have seen: "index_bool (seenURLs ldi) c = (\<exists>j<i. NormalizeURL lib ld0 (us ! j) = Some c)" .
  have "fst (AddURL lib ldi (us ! i)) = (\<not> index_bool (seenURLs ldi) c)"
    using assms(2) by (simp add: AddURL_result norm ld0_def)
  with res seen have first: "fst (AddURLs lib ld0 us) ! i
      = (\<forall>j<i. NormalizeURL lib ld0 (us ! j) \<noteq> Some c)"
    by simp
  have "\<not> fst (AddURLs lib ld0 us) ! i \<longrightarrow>
          GetDuplicateCount (snd (AddURLs lib ld0 (take (Suc i) us))) = GetDuplicateCount ldi + 1"
    unfolding res AddURLs_take_Suc [OF assms(1)] ldi_def [symmetric]
    by (auto intro: AddURL_duplicate_counted)
  with first show ?thesis
    unfolding ld0_def ldi_def by blast
qed

theorem C1_AddURL_first_true_then_duplicate_witness:
  "1 < length test_urls
   \<and> NormalizeURL go (NewLinkDeduplicator test_normalizer) (test_urls ! 1)
       = Some ''https://example.com/page''
   \<and> NormalizeURL go (NewLinkDeduplicator test_normalizer) (test_urls ! 0)
       = Some ''https://example.com/page''
   \<and> \<not> fst (AddURLs go (NewLinkDeduplicator test_normalizer) test_urls) ! 1
   \<and> GetDuplicateCount (snd (AddURLs go (NewLinkDeduplicator test_normalizer) (take 2 test_urls)))
       = GetDuplicateCount (snd (AddURLs go (NewLinkDeduplicator test_normalizer) (take 1 test_urls))) + 1"
proof -
  have len: "1 < length test_urls"
    by (simp add: test_urls_def)
  have n1: "NormalizeURL go (NewLinkDeduplicator test_normalizer) (test_urls ! 1)
            = Some ''https://example.com/page''"
    by code_simp
  have n0: "NormalizeURL go (NewLinkDeduplicator test_normalizer) (test_urls ! 0)
            = Some ''https://example.com/page''"
    by code_simp
  from C1_AddURL_first_true_then_duplicate [OF len n1] n0
  have "\<not> fst (AddURLs go (NewLinkDeduplicator test_normalizer) test_urls) ! 1"
    and "GetDuplicateCount (snd (AddURLs go (NewLinkDeduplicator test_normalizer) (take (Suc 1) test_urls)))
       = GetDuplicateCount (snd (AddURLs go (NewLinkDeduplicator test_normalizer) (take 1 test_urls))) + 1"
    by auto
  with len n1 n0 show ?thesis
    by (simp add: numeral_2_eq_2)
qed

text \<open>
  Claim C10. Starting from a new or a reset deduplicator, every \<open>AddURL\<close> call either
  returns \<open>true\<close> and adds 1 to the number of seen URLs, leaving the duplicate counter as
  it is, or returns \<open>false\<close> and adds 1 to the duplicate counter, leaving the number of
  seen URLs as it is; so after \<open>n\<close> calls \<open>n\<close> is the sum of the two counts.
\<close>

theorem C10_AddURL_conservation:
  assumes "ld0 = NewLinkDeduplicator cfg \<or> ld0 = Reset ld"
  shows "(\<forall>i<length us.
            if fst (AddURLs lib ld0 us) ! i
            then GetSeenURLsCount (snd (AddURLs lib ld0 (take (Suc i) us)))
                   = GetSeenURLsCount (snd (AddURLs lib ld0 (take i us))) + 1
               \<and> GetDuplicateCount (snd (AddURLs lib ld0 (take (Suc i) us)))
                   = GetDuplicateCount (snd (AddURLs lib ld0 (take i us)))
            else GetDuplicateCount (snd (AddURLs lib ld0 (take (Suc i) us)))
                   = GetDuplicateCount (snd (AddURLs lib ld0 (take i us))) + 1
               \<and> GetSeenURLsCount (snd (AddURLs lib ld0 (take (Suc i) us)))
                   = GetSeenURLsCount (snd (AddURLs lib ld0 (take i us))))
       \<and> int (length us) = GetSeenURLsCount (snd (AddURLs lib ld0 us))
                             + GetDuplicateCount (snd (AddURLs lib ld0 us))"
proof -
  have ok: "seen_ok ld0"
    using assms fresh_seen_ok by blast
  have zero: "GetSeenURLsCount ld0 = 0" "GetDuplicateCount ld0 = 0"
    using assms
    by (auto simp: GetSeenURLsCount_def GetDuplicateCount_def NewLinkDeduplicator_def Reset_def)
  have step: "if fst (AddURLs lib ld0 us) ! i
            then GetSeenURLsCount (snd (AddURLs lib ld0 (take (Suc i) us)))
                   = GetSeenURLsCount (snd (AddURLs lib ld0 (take i us))) + 1
               \<and> GetDuplicateCount (snd (AddURLs lib ld0 (take (Suc i) us)))
                   = GetDuplicateCount (snd (AddURLs lib ld0 (take i us)))
            else GetDuplicateCount (snd (AddURLs lib ld0 (take (Suc i) us)))
                   = GetDuplicateCount (snd (AddURLs lib ld0 (take i us))) + 1
               \<and> GetSeenURLsCount (snd (AddURLs lib ld0 (take (Suc i) us)))
                   = GetSeenURLsCount (snd (AddURLs lib ld0 (take i us)))"
    if "i < length us" for i
    unfolding AddURLs_nth [OF that] AddURLs_take_Suc [OF that]
    by (rule AddURL_counts) (rule AddURLs_seen_ok [OF ok])
  have total: "int (length us) = GetSeenURLsCount (snd (AddURLs lib ld0 us))
                             + GetDuplicateCount (snd (AddURLs lib ld0 us))"
    using AddURLs_conservation [OF ok, of lib us] zero by simp
  from step total show ?thesis by blast
qed

theorem C10_AddURL_conservation_witness:
  "int (length test_urls)
     = GetSeenURLsCount (snd (AddURLs go (NewLinkDeduplicator test_normalizer) test_urls))
       + GetDuplicateCount (snd (AddURLs go (NewLinkDeduplicator test_normalizer) test_urls))
   \<and> GetSeenURLsCount (snd (AddURLs go (NewLinkDeduplicator test_normalizer) test_urls)) = 2
   \<and> GetDuplicateCount (snd (AddURLs go (NewLinkDeduplicator test_normalizer) test_urls)) = 1"
proof -
  have "NewLinkDeduplicator test_normalizer = NewLinkDeduplicator test_normalizer
        \<or> NewLinkDeduplicator test_normalizer = Reset (NewLinkDeduplicator test_normalizer)"
    by simp
  from C10_AddURL_conservation [OF this, of test_urls go]
  have "int (length test_urls)
     = GetSeenURLsCount (snd (AddURLs go (NewLinkDeduplicator test_normalizer) test_urls))
       + GetDuplicateCount (snd (AddURLs go (NewLinkDeduplicator test_normalizer) test_urls))"
    by blast
  moreover have "GetDuplicateCount (snd (AddURLs go (NewLinkDeduplicator test_normalizer) test_urls)) = 1"
    by code_simp
  ultimately show ?thesis
    by (simp add: test_urls_def)
qed

subsection \<open>Two calls at once\<close>

lemma AddURL_check_finish:
  "AddURL_finish ld rawURL (AddURL_check lib ld rawURL) = AddURL lib ld rawURL"
  by (simp add: AddURL_finish_def AddURL_check_def AddURL_def split: option.splits)

lemma call_steps_AddURL:
  "call_step lib u (fst (call_step lib u ld Start)) (snd (call_step lib u ld Start))
     = (snd (AddURL lib ld u), Returned (fst (AddURL lib ld u)))"
  by (simp add: call_step_def AddURL_check_finish split: prod.splits)







section \<open>Properties of the quality analyzer\<close>

text \<open>
  Claim C5, as stated: the page with title \<open>""\<close> and content \<open>"Error 404"\<close> has exactly
  the two issues \<open>missing_title\<close> and \<open>blacklisted_content\<close>. It has three: its two words
  are fewer than \<open>MinWordCount = 50\<close>, and \<open>DetectIssues\<close> reports that first.
\<close>

theorem C5_two_issues_counterexample:
  "map i_Type (DetectIssues go (NewContentQualityAnalyzer error_page_config) error_page)
     \<noteq> [''missing_title'', ''blacklisted_content'']
   \<and> length (DetectIssues go (NewContentQualityAnalyzer error_page_config) error_page) \<noteq> 2"
  by code_simp

text \<open>
  Claim C5, amended: the page has exactly three issues, of types \<open>word_count\<close> (a
  warning), \<open>missing_title\<close> (an error) and \<open>blacklisted_content\<close> (a warning), in this
  order; its score is 0.15 and \<open>ShouldSkip\<close> returns \<open>true\<close> for its quality.
\<close>

theorem C5_error_page_three_issues_and_skipped:
  "map i_Type (DetectIssues go (NewContentQualityAnalyzer error_page_config) error_page)
     = [''word_count'', ''missing_title'', ''blacklisted_content'']
   \<and> map i_Severity (DetectIssues go (NewContentQualityAnalyzer error_page_config) error_page)
     = [''warning'', ''error'', ''warning'']
   \<and> q_Issues (fst (AnalyzeContent go (NewContentQualityAnalyzer error_page_config) error_page))
     = DetectIssues go (NewContentQualityAnalyzer error_page_config) error_page
   \<and> q_Score (fst (AnalyzeContent go (NewContentQualityAnalyzer error_page_config) error_page)) = 0.15
   \<and> ShouldSkip (NewContentQualityAnalyzer error_page_config)
         (fst (AnalyzeContent go (NewContentQualityAnalyzer error_page_config) error_page))"
  by code_simp

text \<open>
  Claim C6, as stated: a page with \<open>w\<close> words, \<open>0 < w < 500\<close>, has word sub-score
  \<open>w / 500\<close>. With 50 words the sub-score is 0, not 0.1.
\<close>

theorem C6_linear_ramp_counterexample:
  "0 < m_WordCount (metrics_words 50) \<and> m_WordCount (metrics_words 50) < 500
   \<and> wordScore (metrics_words 50) = 0
   \<and> wordScore (metrics_words 50) \<noteq> real_of_int (m_WordCount (metrics_words 50)) / 500
   \<and> CalculateScore (scorer (NewContentQualityAnalyzer zero_config)) (metrics_words 50) = 0"
  by (simp add: metrics_words_def wordScore_def CalculateScore_def codeScore_def headerScore_def
      contentRatioScore_def titleScore_def)

text \<open>
  Claim C6, amended: the word sub-score lies in \<open>[0, 1]\<close>; it is 1 from 500 words on,
  \<open>w / 500\<close> for \<open>100 \<le> w < 500\<close> and 0 below 100 words; and it enters the score
  multiplied by the weight of the word count.
\<close>

theorem C6_word_score_ramp_from_100:
  "0 \<le> wordScore m \<and> wordScore m \<le> 1
   \<and> (m_WordCount m \<ge> 500 \<longrightarrow> wordScore m = 1)
   \<and> (100 \<le> m_WordCount m \<and> m_WordCount m < 500
        \<longrightarrow> wordScore m = real_of_int (m_WordCount m) / 500)
   \<and> (m_WordCount m < 100 \<longrightarrow> wordScore m = 0)
   \<and> CalculateScore qs m
       = wordScore m * w_WordCount (weights qs) + CalculateScore qs (m\<lparr>m_WordCount := 0\<rparr>)"
proof -
  have range: "0 \<le> wordScore m \<and> wordScore m \<le> 1"
    by (simp add: wordScore_def)
  have pieces: "(m_WordCount m \<ge> 500 \<longrightarrow> wordScore m = 1)
      \<and> (100 \<le> m_WordCount m \<and> m_WordCount m < 500
           \<longrightarrow> wordScore m = real_of_int (m_WordCount m) / 500)
      \<and> (m_WordCount m < 100 \<longrightarrow> wordScore m = 0)"
    by (simp add: wordScore_def)
  have "wordScore (m\<lparr>m_WordCount := 0\<rparr>) = 0"
    by (simp add: wordScore_def)
  then have "CalculateScore qs m
       = wordScore m * w_WordCount (weights qs) + CalculateScore qs (m\<lparr>m_WordCount := 0\<rparr>)"
    by (simp add: CalculateScore_def codeScore_def headerScore_def contentRatioScore_def
        titleScore_def)
  with range pieces show ?thesis by blast
qed

theorem C6_word_score_ramp_from_100_witness:
  "m_WordCount (metrics_words 500) \<ge> 500 \<and> wordScore (metrics_words 500) = 1
   \<and> 100 \<le> m_WordCount (metrics_words 200) \<and> m_WordCount (metrics_words 200) < 500
   \<and> wordScore (metrics_words 200) = 2 / 5
   \<and> m_WordCount (metrics_words 99) < 100 \<and> wordScore (metrics_words 99) = 0"
  using C6_word_score_ramp_from_100 [of "metrics_words 500"]
        C6_word_score_ramp_from_100 [of "metrics_words 200"]
        C6_word_score_ramp_from_100 [of "metrics_words 99"]
  by (simp add: metrics_words_def)

lemma filler_text_filler: "filler_text (filler n)"
  by (induction n) (auto simp: filler_text_def filler_def)

lemma filler_text_Cons: "filler_text (c # cs) = ((c = CHR ''x'' \<or> c = CHR '' '') \<and> filler_text cs)"
  by (auto simp: filler_text_def)

lemma re_match_no_start:
  assumes "\<not> class_match ci cl c" "0 < lo"
  shows "re_match ci (Rep cl lo hi g # r) prev (c # cs) = None"
  using assms by (cases g) simp_all

lemma find_all_filler:
  assumes "filler_text s" "\<not> class_match ci cl (CHR ''x'')" "\<not> class_match ci cl (CHR '' '')" "0 < lo"
  shows "find_all (ci, Rep cl lo hi g # r) prev skip s = []"
  using assms(1)
proof (induction s arbitrary: prev skip)
  case Nil
  show ?case by simp
next
  case (Cons c cs)
  then have c: "\<not> class_match ci cl c" and cs: "filler_text cs"
    using assms(2,3) by (auto simp: filler_text_Cons)
  show ?case
    using Cons.IH [OF cs] re_match_no_start [OF c assms(4)] by simp
qed

lemma find_all_filler_BeginLine:
  assumes "filler_text s" "\<not> class_match ci cl (CHR ''x'')" "\<not> class_match ci cl (CHR '' '')" "0 < lo"
  shows "find_all (ci, BeginLine # Rep cl lo hi g # r) prev skip s = []"
  using assms(1)
proof (induction s arbitrary: prev skip)
  case Nil
  show ?case by simp
next
  case (Cons c cs)
  then have c: "\<not> class_match ci cl c" and cs: "filler_text cs"
    using assms(2,3) by (auto simp: filler_text_Cons)
  show ?case
    using Cons.IH [OF cs] re_match_no_start [OF c assms(4)] by simp
qed

lemma replace_all_filler:
  assumes "filler_text s" "\<not> class_match ci cl (CHR ''x'')" "\<not> class_match ci cl (CHR '' '')" "0 < lo"
  shows "replace_all (ci, Rep cl lo hi g # r) repl prev 0 s = s"
  using assms(1)
proof (induction s arbitrary: prev)
  case Nil
  show ?case by simp
next
  case (Cons c cs)
  then have c: "\<not> class_match ci cl c" and cs: "filler_text cs"
    using assms(2,3) by (auto simp: filler_text_Cons)
  show ?case
    using Cons.IH [OF cs] re_match_no_start [OF c assms(4)] by simp
qed

lemma Fields_loop_filler: "Fields_loop [] (filler n) = replicate n ''x''"
  by (induction n) (simp_all add: filler_def isSpace_def)

lemma length_filler: "length (filler n) = 2 * n"
  by (induction n) (simp_all add: filler_def)

lemmas filler_eval =
  find_all_filler [OF filler_text_filler] find_all_filler_BeginLine [OF filler_text_filler]
  replace_all_filler [OF filler_text_filler] Fields_loop_filler length_filler

lemma lower_byte_lower:
  "lower_byte (CHR ''a'') = CHR ''a''"
  "lower_byte (CHR ''b'') = CHR ''b''"
  "lower_byte (CHR ''c'') = CHR ''c''"
  "lower_byte (CHR ''d'') = CHR ''d''"
  "lower_byte (CHR ''e'') = CHR ''e''"
  "lower_byte (CHR ''f'') = CHR ''f''"
  "lower_byte (CHR ''g'') = CHR ''g''"
  "lower_byte (CHR ''h'') = CHR ''h''"
  "lower_byte (CHR ''i'') = CHR ''i''"
  "lower_byte (CHR ''j'') = CHR ''j''"
  "lower_byte (CHR ''k'') = CHR ''k''"
  "lower_byte (CHR ''l'') = CHR ''l''"
  "lower_byte (CHR ''m'') = CHR ''m''"
  "lower_byte (CHR ''n'') = CHR ''n''"
  "lower_byte (CHR ''o'') = CHR ''o''"
  "lower_byte (CHR ''p'') = CHR ''p''"
  "lower_byte (CHR ''q'') = CHR ''q''"
  "lower_byte (CHR ''r'') = CHR ''r''"
  "lower_byte (CHR ''s'') = CHR ''s''"
  "lower_byte (CHR ''t'') = CHR ''t''"
  "lower_byte (CHR ''u'') = CHR ''u''"
  "lower_byte (CHR ''v'') = CHR ''v''"
  "lower_byte (CHR ''w'') = CHR ''w''"
  "lower_byte (CHR ''x'') = CHR ''x''"
  "lower_byte (CHR ''y'') = CHR ''y''"
  "lower_byte (CHR ''z'') = CHR ''z''"
  "lower_byte (CHR '' '') = CHR '' ''"
  "lower_byte (CHR ''#'') = CHR ''#''"
  "lower_byte (CHR ''`'') = CHR ''`''"
  "lower_byte (CHR 0x0A) = CHR 0x0A"
  by (simp_all add: lower_byte_def)

lemma long_ratio: "estimateContentRatio go long_content = 1017 / 1021"
  by (simp add: estimateContentRatio_def go_def go_FindAllString_def boilerplatePatterns_def
      lit_def long_content_def lower_byte_lower filler_eval)
lemma long_words: "countWords go long_content = 500"
  by (simp add: countWords_def go_def go_Fields_def long_content_def isSpace_def filler_eval)

lemma long_headers: "countHeaders go long_content = 3"
  by (simp add: countHeaders_def go_def go_FindAllString_def headerPattern_def long_content_def
      filler_eval)

lemma long_code: "countCodeBlocks go long_content = 3"
  by (simp add: countCodeBlocks_def go_def go_FindAllString_def go_ReplaceAllString_def
      codeBlockPattern_def inlineCodePattern_def lit_def long_content_def filler_eval)

lemma estimateContentRatio_range:
  "0 \<le> estimateContentRatio lib text \<and> estimateContentRatio lib text \<le> 1"
proof -
  define b where "b = (\<Sum>pattern \<leftarrow> boilerplatePatterns.
                         \<Sum>match \<leftarrow> regexp_FindAllString lib pattern text. int (length match))"
  have "0 \<le> b"
    unfolding b_def by (auto intro!: sum_list_nonneg)
  then show ?thesis
    unfolding estimateContentRatio_def b_def [symmetric] Let_def
    by (auto simp: divide_simps)
qed

lemma AnalyzeContent_score:
  "q_Score (fst (AnalyzeContent lib cqa content))
     = CalculateScore (scorer cqa) (extractMetrics lib content)"
  by (simp add: AnalyzeContent_def Let_def)

lemma extractMetrics_fields:
  "m_WordCount (extractMetrics lib content) = countWords lib (sc_Content content)"
  "m_CodeBlockCount (extractMetrics lib content) = countCodeBlocks lib (sc_Content content)"
  "m_HeaderCount (extractMetrics lib content) = countHeaders lib (sc_Content content)"
  "m_ContentRatio (extractMetrics lib content) = estimateContentRatio lib (sc_Content content)"
  "m_HasTitle (extractMetrics lib content)
     = (sc_Title content \<noteq> '''' \<and> sc_Title content \<noteq> ''Untitled'')"
  by (simp_all add: extractMetrics_def Let_def)

lemma default_weights:
  "weights (scorer (NewContentQualityAnalyzer cfg))
     = \<lparr>w_WordCount = 0.3, w_CodeBlocks = 0.2, w_Images = 0.1, w_Headers = 0.15,
        w_ContentRatio = 0.15, w_TitlePresence = 0.1\<rparr>"
  by (simp add: NewContentQualityAnalyzer_def)

lemma long_page_metrics:
  "m_WordCount (extractMetrics go (page url title long_content)) = 500"
  "m_CodeBlockCount (extractMetrics go (page url title long_content)) = 3"
  "m_HeaderCount (extractMetrics go (page url title long_content)) = 3"
  "m_ContentRatio (extractMetrics go (page url title long_content)) = 1017 / 1021"
  by (simp_all add: extractMetrics_fields page_def long_words long_code long_headers long_ratio)

text \<open>
  Claim C7, as stated: every page with at least 500 words, 3 code blocks, 3 headers, a
  content ratio of at least 0.8 and a non-empty title scores at least 0.8. The page
  titled \<open>Untitled\<close> has 500 words, 3 code blocks, 3 headers and content ratio
  \<open>1017 / 1021\<close>, and scores \<open>0.65 + 0.15 * 1017 / 1021 < 0.8\<close>: \<open>Untitled\<close> counts as
  no title.
\<close>

theorem C7_untitled_page_counterexample:
  "500 \<le> m_WordCount (extractMetrics go untitled_page)
   \<and> 3 \<le> m_CodeBlockCount (extractMetrics go untitled_page)
   \<and> 3 \<le> m_HeaderCount (extractMetrics go untitled_page)
   \<and> 0.8 \<le> m_ContentRatio (extractMetrics go untitled_page)
   \<and> sc_Title untitled_page \<noteq> ''''
   \<and> q_Score (fst (AnalyzeContent go (NewContentQualityAnalyzer zero_config) untitled_page)) < 0.8"
proof -
  have title: "sc_Title untitled_page \<noteq> ''''" "\<not> m_HasTitle (extractMetrics go untitled_page)"
    by (simp_all add: untitled_page_def page_def extractMetrics_fields)
  have "q_Score (fst (AnalyzeContent go (NewContentQualityAnalyzer zero_config) untitled_page))
        = 0.3 + 0.2 + 0.15 + 0.15 * (1017 / 1021)"
    using title(2)
    by (simp add: AnalyzeContent_score CalculateScore_def default_weights wordScore_def
        codeScore_def headerScore_def contentRatioScore_def titleScore_def
        long_page_metrics [of "''''" "''Untitled''", folded untitled_page_def])
  then show ?thesis
    using title(1)
    by (simp add: long_page_metrics [of "''''" "''Untitled''", folded untitled_page_def])
qed

text \<open>
  Claim C7, amended: for an analyzer with the default weights, every page with at least
  500 words, 3 code blocks, 3 headers, a content ratio of at least 0.8 and a title that
  is neither empty nor \<open>Untitled\<close> scores at least 0.8; every page with fewer than 50
  words, no code block, no header, a content ratio of at most 0.2 and a title that is
  empty or \<open>Untitled\<close> scores at most 0.3; and every page scores between 0 and 1.
\<close>

theorem C7_score_thresholds:
  assumes "scorer cqa = scorer (NewContentQualityAnalyzer cfg)"
  shows "(500 \<le> m_WordCount (extractMetrics lib content)
          \<and> 3 \<le> m_CodeBlockCount (extractMetrics lib content)
          \<and> 3 \<le> m_HeaderCount (extractMetrics lib content)
          \<and> 0.8 \<le> m_ContentRatio (extractMetrics lib content)
          \<and> sc_Title content \<noteq> '''' \<and> sc_Title content \<noteq> ''Untitled''
            \<longrightarrow> 0.8 \<le> q_Score (fst (AnalyzeContent lib cqa content)))
       \<and> (m_WordCount (extractMetrics lib content) < 50
          \<and> m_CodeBlockCount (extractMetrics lib content) = 0
          \<and> m_HeaderCount (extractMetrics lib content) = 0
          \<and> m_ContentRatio (extractMetrics lib content) \<le> 0.2
          \<and> (sc_Title content = '''' \<or> sc_Title content = ''Untitled'')
            \<longrightarrow> q_Score (fst (AnalyzeContent lib cqa content)) \<le> 0.3)
       \<and> 0 \<le> q_Score (fst (AnalyzeContent lib cqa content))
       \<and> q_Score (fst (AnalyzeContent lib cqa content)) \<le> 1"
proof -
  define m where "m = extractMetrics lib content"
  have score: "q_Score (fst (AnalyzeContent lib cqa content))
      = wordScore m * 0.3 + codeScore m * 0.2 + headerScore m * 0.15
        + contentRatioScore m * 0.15 + titleScore m * 0.1"
    by (simp add: AnalyzeContent_score CalculateScore_def assms default_weights m_def)
  have ratio: "0 \<le> m_ContentRatio m" "m_ContentRatio m \<le> 1"
    using estimateContentRatio_range [of lib "sc_Content content"]
    by (simp_all add: m_def extractMetrics_fields)
  have title: "m_HasTitle m = (sc_Title content \<noteq> '''' \<and> sc_Title content \<noteq> ''Untitled'')"
    by (simp add: m_def extractMetrics_fields)
  have w: "0 \<le> wordScore m" "wordScore m \<le> 1"
    and c: "0 \<le> codeScore m" "codeScore m \<le> 1"
    and h: "0 \<le> headerScore m" "headerScore m \<le> 1"
    and t: "0 \<le> titleScore m" "titleScore m \<le> 1"
    by (simp_all add: wordScore_def codeScore_def headerScore_def titleScore_def)
  have r: "contentRatioScore m = m_ContentRatio m"
    using ratio by (simp add: contentRatioScore_def)
  have high: "0.8 \<le> q_Score (fst (AnalyzeContent lib cqa content))"
    if "500 \<le> m_WordCount m" "3 \<le> m_CodeBlockCount m" "3 \<le> m_HeaderCount m"
       "0.8 \<le> m_ContentRatio m" "m_HasTitle m"
    using that unfolding score r
    by (simp add: wordScore_def codeScore_def headerScore_def titleScore_def)
  have low: "q_Score (fst (AnalyzeContent lib cqa content)) \<le> 0.3"
    if "m_WordCount m < 50" "m_CodeBlockCount m = 0" "m_HeaderCount m = 0"
       "m_ContentRatio m \<le> 0.2" "\<not> m_HasTitle m"
    using that unfolding score r
    by (simp add: wordScore_def codeScore_def headerScore_def titleScore_def)
  have range: "0 \<le> q_Score (fst (AnalyzeContent lib cqa content))"
      "q_Score (fst (AnalyzeContent lib cqa content)) \<le> 1"
    unfolding score r using w c h t ratio by simp_all
  from high low range show ?thesis
    unfolding m_def [symmetric] title by blast
qed

theorem C7_score_thresholds_witness:
  "500 \<le> m_WordCount (extractMetrics go guide_page)
   \<and> 3 \<le> m_CodeBlockCount (extractMetrics go guide_page)
   \<and> 3 \<le> m_HeaderCount (extractMetrics go guide_page)
   \<and> 0.8 \<le> m_ContentRatio (extractMetrics go guide_page)
   \<and> sc_Title guide_page \<noteq> '''' \<and> sc_Title guide_page \<noteq> ''Untitled''
   \<and> 0.8 \<le> q_Score (fst (AnalyzeContent go (NewContentQualityAnalyzer zero_config) guide_page))
   \<and> m_WordCount (extractMetrics go menu_page) < 50
   \<and> m_CodeBlockCount (extractMetrics go menu_page) = 0
   \<and> m_HeaderCount (extractMetrics go menu_page) = 0
   \<and> m_ContentRatio (extractMetrics go menu_page) \<le> 0.2
   \<and> sc_Title menu_page = ''''
   \<and> q_Score (fst (AnalyzeContent go (NewContentQualityAnalyzer zero_config) menu_page)) \<le> 0.3"
proof -
  have guide: "500 \<le> m_WordCount (extractMetrics go guide_page)
      \<and> 3 \<le> m_CodeBlockCount (extractMetrics go guide_page)
      \<and> 3 \<le> m_HeaderCount (extractMetrics go guide_page)
      \<and> 0.8 \<le> m_ContentRatio (extractMetrics go guide_page)
      \<and> sc_Title guide_page \<noteq> '''' \<and> sc_Title guide_page \<noteq> ''Untitled''"
    by (simp add: long_page_metrics [of "''''" "''Guide''", folded guide_page_def])
       (simp add: guide_page_def page_def)
  have menu: "m_WordCount (extractMetrics go menu_page) < 50
      \<and> m_CodeBlockCount (extractMetrics go menu_page) = 0
      \<and> m_HeaderCount (extractMetrics go menu_page) = 0
      \<and> m_ContentRatio (extractMetrics go menu_page) \<le> 0.2
      \<and> (sc_Title menu_page = '''' \<or> sc_Title menu_page = ''Untitled'')"
    by code_simp
  have title: "sc_Title menu_page = ''''"
    by (simp add: menu_page_def page_def)
  from C7_score_thresholds [OF refl, of go guide_page zero_config] guide
  have "0.8 \<le> q_Score (fst (AnalyzeContent go (NewContentQualityAnalyzer zero_config) guide_page))"
    by blast
  moreover from C7_score_thresholds [OF refl, of go menu_page zero_config] menu
  have "q_Score (fst (AnalyzeContent go (NewContentQualityAnalyzer zero_config) menu_page)) \<le> 0.3"
    by blast
  ultimately show ?thesis
    using guide menu title by blast
qed

section \<open>Properties of the link admission policy\<close>

text \<open>Resolution in the model of the library keeps the host of an absolute link.\<close>

lemma go_ResolveReference_absolute:
  "IsAbs linkURL \<Longrightarrow> Host (url_ResolveReference go baseURL linkURL) = Host linkURL"
  by (simp add: go_def go_ResolveReference_def IsAbs_def Let_def)




section \<open>Properties of the tree builder\<close>

text \<open>
  Claim C4 on the code: with the pages \<open>/\<close>, \<open>/docs/\<close>, \<open>/docs/guide/\<close> and
  \<open>/docs/guide/start\<close>, parents inferred from the URL hierarchy and the fallback to the
  root enabled, \<open>BuildTree\<close> returns a tree of four nodes in which \<open>/docs/guide/start\<close>
  is a child of the root and \<open>/docs/guide/\<close> has no child: \<open>path.Dir\<close> of
  \<open>/docs/guide/start\<close> is \<open>/docs/guide\<close>, which is not the path \<open>/docs/guide/\<close> of any
  node, and no node's path followed by \<open>/\<close> is a prefix of \<open>/docs/guide/start\<close>.
\<close>

theorem C4_guide_start_is_attached_to_root:
  "case BuildTree go (hierarchy_builder True) 4 guide_urls (contents_of guide_urls) of
     Inl e \<Rightarrow> False
   | Inr t \<Rightarrow>
       TotalNodes t = 4 \<and> length (nodes t) = 4 \<and> Root t = Some 0
       \<and> FindNode t ''https://example.com/docs/'' = Some 1
       \<and> FindNode t ''https://example.com/docs/guide/'' = Some 2
       \<and> FindNode t ''https://example.com/docs/guide/start'' = Some 3
       \<and> n_Parent (nodes t ! 3) = Some 0
       \<and> n_Parent (nodes t ! 3) \<noteq> FindNode t ''https://example.com/docs/guide/''
       \<and> n_Children (nodes t ! 0) = [1, 2, 3]
       \<and> n_Children (nodes t ! 2) = []"
  by code_simp

end
